theory Spec2Isabelle
  imports Complex_Main
begin

section \<open>JavaScript values\<close>

text \<open>
  The page script and the gateway are JavaScript. A JavaScript number is modelled as
  \<open>jsnum\<close>: \<open>NaN\<close>, the two infinities, negative zero, or a finite value \<open>Fin q\<close> with
  \<open>q\<close> its exact rational value (\<open>Fin 0\<close> is positive zero). What the code computes from
  text is rounded to a double (\<open>roundToDouble\<close>); comparison, minimum and maximum do not
  round. A field value of an upstream record is a \<open>jsval\<close>: absent (\<open>undefined\<close>),
  \<open>null\<close>, a boolean, a number or a string. A string is the list of the bytes of its
  UTF-8 encoding.
\<close>

datatype jsnum = NaN | PosInf | NegInf | NegZero | Fin rat

datatype jsval = Undefined | Null | Bool bool | Num jsnum | Str string

text \<open>
  The relational operator \<open><\<close> on numbers: false as soon as an operand is \<open>NaN\<close>; the two
  zeros are equal.
\<close>

fun num_less :: "jsnum \<Rightarrow> jsnum \<Rightarrow> bool" where
  "num_less NaN _ = False"
| "num_less _ NaN = False"
| "num_less NegInf NegInf = False"
| "num_less NegInf _ = True"
| "num_less _ NegInf = False"
| "num_less PosInf _ = False"
| "num_less _ PosInf = True"
| "num_less NegZero NegZero = False"
| "num_less NegZero (Fin b) = (0 < b)"
| "num_less (Fin a) NegZero = (a < 0)"
| "num_less (Fin a) (Fin b) = (a < b)"

text \<open>\<open>ToBoolean\<close>, as used by \<open>?:\<close>, \<open>||\<close>, \<open>!\<close> and \<open>if\<close>.\<close>

fun truthy :: "jsval \<Rightarrow> bool" where
  "truthy Undefined = False"
| "truthy Null = False"
| "truthy (Bool b) = b"
| "truthy (Num n) = (n \<noteq> NaN \<and> n \<noteq> Fin 0 \<and> n \<noteq> NegZero)"
| "truthy (Str s) = (s \<noteq> [])"

text \<open>\<open>a || b\<close>\<close>

definition js_or :: "jsval \<Rightarrow> jsval \<Rightarrow> jsval" where
  "js_or a b = (if truthy a then a else b)"

subsection \<open>Rounding to a double\<close>

text \<open>\<open>2\<^sup>e\<close> for an integer exponent.\<close>

definition pow2 :: "int \<Rightarrow> rat" where
  "pow2 e = (if 0 \<le> e then 2 ^ nat e else 1 / 2 ^ nat (- e))"

text \<open>The nearest integer, a tie going to the even one.\<close>

definition roundHalfEven :: "rat \<Rightarrow> int" where
  "roundHalfEven x =
     (let f = \<lfloor>x\<rfloor>; d = x - of_int f
      in if d < 1 / 2 then f
         else if 1 / 2 < d then f + 1
         else if even f then f else f + 1)"

text \<open>
  A positive value is written \<open>m \<times> 2\<^sup>e\<close> with \<open>2\<^sup>5\<^sup>2 \<le> m < 2\<^sup>5\<^sup>3\<close>, or with \<open>e = -1074\<close> and a
  smaller \<open>m\<close> in the subnormal range: \<open>scaleDown\<close> halves a value that is too large,
  \<open>scaleUp\<close> doubles one that is too small.
\<close>

function scaleDown :: "rat \<times> int \<Rightarrow> rat \<times> int" where
  "scaleDown (m, e) = (if 2 ^ 53 \<le> m then scaleDown (m / 2, e + 1) else (m, e))"
  by pat_completeness auto
termination
proof (relation "measure (\<lambda>(m, e). nat \<lceil>m\<rceil>)")
  show "wf (measure (\<lambda>(m, e). nat \<lceil>m\<rceil>))" by simp
next
  fix m :: rat and e :: int
  assume a: "2 ^ 53 \<le> m"
  then have "m / 2 \<le> m - 1" by simp
  then have "\<lceil>m / 2\<rceil> \<le> \<lceil>m - 1\<rceil>" by (rule ceiling_mono)
  then have "\<lceil>m / 2\<rceil> < \<lceil>m\<rceil>" by simp
  moreover have "0 < \<lceil>m\<rceil>" using a by (simp add: ceiling_less_iff less_le_trans [of _ "2 ^ 53"])
  ultimately show "((m / 2, e + 1), (m, e)) \<in> measure (\<lambda>(m, e). nat \<lceil>m\<rceil>)" by simp
qed

declare scaleDown.simps [simp del]

function scaleUp :: "rat \<times> int \<Rightarrow> rat \<times> int" where
  "scaleUp (m, e) = (if m < 2 ^ 52 \<and> - 1074 < e then scaleUp (2 * m, e - 1) else (m, e))"
  by pat_completeness auto
termination
  by (relation "measure (\<lambda>(m, e). nat (e + 1074))") auto

declare scaleUp.simps [simp del]

text \<open>
  The double nearest to a non-negative rational, ties to the even significand; a value
  that rounds to \<open>2\<^sup>1\<^sup>0\<^sup>2\<^sup>4\<close> or more is \<open>+Infinity\<close>. This is the Number value of a numeric
  literal as the engines compute it (for a literal of more than twenty significant
  digits the standard also allows the digits after the twentieth to be dropped first).
\<close>

definition roundToDouble :: "rat \<Rightarrow> jsnum" where
  "roundToDouble q =
     (if q \<le> 0 then Fin 0
      else
        let (m, e) = scaleUp (scaleDown (q, 0));
            v = of_int (roundHalfEven m) * pow2 e
        in if 2 ^ 1024 \<le> v then PosInf else Fin v)"

definition negate :: "jsnum \<Rightarrow> jsnum" where
  "negate n =
     (case n of
        NaN \<Rightarrow> NaN
      | PosInf \<Rightarrow> NegInf
      | NegInf \<Rightarrow> PosInf
      | NegZero \<Rightarrow> Fin 0
      | Fin q \<Rightarrow> if q = 0 then NegZero else Fin (- q))"

subsection \<open>Numeric literals in strings\<close>

text \<open>
  The white space and line terminator characters of the language (TAB, LF, VT, FF,
  CR, the space, U+00A0, U+1680, U+2000 to U+200A, U+2028, U+2029, U+202F, U+205F,
  U+3000 and U+FEFF), each as its UTF-8 bytes.
\<close>

definition whiteSpaceChars :: "string list" where
  "whiteSpaceChars =
     [[CHR 0x09], [CHR 0x0A], [CHR 0x0B], [CHR 0x0C], [CHR 0x0D], [CHR 0x20],
      [CHR 0xC2, CHR 0xA0],
      [CHR 0xE1, CHR 0x9A, CHR 0x80],
      [CHR 0xE2, CHR 0x80, CHR 0x80], [CHR 0xE2, CHR 0x80, CHR 0x81],
      [CHR 0xE2, CHR 0x80, CHR 0x82], [CHR 0xE2, CHR 0x80, CHR 0x83],
      [CHR 0xE2, CHR 0x80, CHR 0x84], [CHR 0xE2, CHR 0x80, CHR 0x85],
      [CHR 0xE2, CHR 0x80, CHR 0x86], [CHR 0xE2, CHR 0x80, CHR 0x87],
      [CHR 0xE2, CHR 0x80, CHR 0x88], [CHR 0xE2, CHR 0x80, CHR 0x89],
      [CHR 0xE2, CHR 0x80, CHR 0x8A],
      [CHR 0xE2, CHR 0x80, CHR 0xA8], [CHR 0xE2, CHR 0x80, CHR 0xA9],
      [CHR 0xE2, CHR 0x80, CHR 0xAF],
      [CHR 0xE2, CHR 0x81, CHR 0x9F],
      [CHR 0xE3, CHR 0x80, CHR 0x80],
      [CHR 0xEF, CHR 0xBB, CHR 0xBF]]"

text \<open>The white space character that starts \<open>s\<close>, if one does.\<close>

definition whiteSpacePrefix :: "string \<Rightarrow> string option" where
  "whiteSpacePrefix s = find (\<lambda>w. take (length w) s = w) whiteSpaceChars"

function skipWhiteSpace :: "string \<Rightarrow> string" where
  "skipWhiteSpace s =
     (case whiteSpacePrefix s of
        None \<Rightarrow> s
      | Some w \<Rightarrow> skipWhiteSpace (drop (length w) s))"
  by pat_completeness auto
termination
proof (relation "measure length")
  show "wf (measure length)" by simp
next
  fix s w :: string
  assume "whiteSpacePrefix s = Some w"
  then have w: "w \<in> set whiteSpaceChars" and t: "take (length w) s = w"
    by (auto simp: whiteSpacePrefix_def find_Some_iff)
  from w have "w \<noteq> []" by (auto simp: whiteSpaceChars_def)
  moreover from t have "length (take (length w) s) = length w" by simp
  then have "length w \<le> length s" by simp
  ultimately have "length (drop (length w) s) < length s" by (cases w) auto
  then show "(drop (length w) s, s) \<in> measure length" by simp
qed

declare skipWhiteSpace.simps [simp del]

text \<open>
  The white space character that ends \<open>s\<close>, if one does. At the end of well-formed
  UTF-8 the bytes of a white space character can only be that character.
\<close>

definition whiteSpaceSuffix :: "string \<Rightarrow> string option" where
  "whiteSpaceSuffix s = find (\<lambda>w. drop (length s - length w) s = w) whiteSpaceChars"

function dropWhiteSpaceEnd :: "string \<Rightarrow> string" where
  "dropWhiteSpaceEnd s =
     (case whiteSpaceSuffix s of
        None \<Rightarrow> s
      | Some w \<Rightarrow> dropWhiteSpaceEnd (take (length s - length w) s))"
  by pat_completeness auto
termination
proof (relation "measure length")
  show "wf (measure length)" by simp
next
  fix s w :: string
  assume "whiteSpaceSuffix s = Some w"
  then have w: "w \<in> set whiteSpaceChars" and t: "drop (length s - length w) s = w"
    by (auto simp: whiteSpaceSuffix_def find_Some_iff)
  from w have "w \<noteq> []" by (auto simp: whiteSpaceChars_def)
  with t have "s \<noteq> []" by auto
  with \<open>w \<noteq> []\<close> have "length (take (length s - length w) s) < length s" by (cases w) auto
  then show "(take (length s - length w) s, s) \<in> measure length" by simp
qed

declare dropWhiteSpaceEnd.simps [simp del]

definition trimWhiteSpace :: "string \<Rightarrow> string" where
  "trimWhiteSpace s = dropWhiteSpaceEnd (skipWhiteSpace s)"

definition isDecimalDigit :: "char \<Rightarrow> bool" where
  "isDecimalDigit c \<longleftrightarrow> c \<in> set ''0123456789''"

definition digitValue :: "char \<Rightarrow> nat" where
  "digitValue c = of_char c - 48"

definition decimalValue :: "string \<Rightarrow> nat" where
  "decimalValue ds = foldl (\<lambda>a c. 10 * a + digitValue c) 0 ds"

text \<open>\<open>m \<times> 10\<^sup>e\<close> for an integer exponent.\<close>

definition scale10 :: "rat \<Rightarrow> int \<Rightarrow> rat" where
  "scale10 m e = (if 0 \<le> e then m * 10 ^ nat e else m / 10 ^ nat (- e))"

text \<open>
  The optional \<open>ExponentPart\<close> of a decimal literal: \<open>e\<close> or \<open>E\<close>, an optional sign and
  at least one digit. Returns the exponent and the text after it; an incomplete
  exponent is not part of the literal.
\<close>

definition exponentPart :: "string \<Rightarrow> int \<times> string" where
  "exponentPart s =
     (case s of
        [] \<Rightarrow> (0, s)
      | c # r \<Rightarrow>
          if c = CHR ''e'' \<or> c = CHR ''E'' then
            (let (neg, r') =
                   (case r of
                      [] \<Rightarrow> (False, r)
                    | d # t \<Rightarrow> if d = CHR ''-'' then (True, t)
                               else if d = CHR ''+'' then (False, t) else (False, r));
                 ds = takeWhile isDecimalDigit r'
             in if ds = [] then (0, s)
                else ((if neg then - int (decimalValue ds) else int (decimalValue ds)),
                      dropWhile isDecimalDigit r'))
          else (0, s))"

text \<open>
  The mathematical value of an unsigned literal: \<open>Infinity\<close>, or an exact rational.
\<close>

datatype literal_value = InfinityLiteral | Exact rat

text \<open>
  The longest prefix of \<open>s\<close> that is an unsigned \<open>StrDecimalLiteral\<close>
  (\<open>Infinity\<close>, \<open>digits [. [digits]] [exponent]\<close> or \<open>. digits [exponent]\<close>),
  with its value and the text after it; \<open>None\<close> when no prefix is one.
\<close>

definition unsignedDecimal :: "string \<Rightarrow> (literal_value \<times> string) option" where
  "unsignedDecimal s =
     (if take 8 s = ''Infinity'' then Some (InfinityLiteral, drop 8 s)
      else
        let ip = takeWhile isDecimalDigit s;
            r1 = dropWhile isDecimalDigit s;
            (fp, r2, dot) =
              (case r1 of
                 [] \<Rightarrow> ([], r1, False)
               | c # t \<Rightarrow>
                   if c = CHR ''.'' \<and> (ip \<noteq> [] \<or> takeWhile isDecimalDigit t \<noteq> [])
                   then (takeWhile isDecimalDigit t, dropWhile isDecimalDigit t, True)
                   else ([], r1, False))
        in if ip = [] \<and> \<not> dot then None
           else
             let (e, r3) = exponentPart r2
             in Some (Exact (scale10 (of_nat (decimalValue (ip @ fp))) (e - int (length fp))), r3))"

text \<open>
  A \<open>StrDecimalLiteral\<close> with its optional sign: whether it is negative, the value of
  the unsigned literal and the text after it.
\<close>

definition strDecimalLiteral :: "string \<Rightarrow> (bool \<times> literal_value \<times> string) option" where
  "strDecimalLiteral s =
     (case s of
        [] \<Rightarrow> None
      | c # r \<Rightarrow>
          if c = CHR ''-'' then map_option (\<lambda>(v, t). (True, v, t)) (unsignedDecimal r)
          else if c = CHR ''+'' then map_option (\<lambda>(v, t). (False, v, t)) (unsignedDecimal r)
          else map_option (\<lambda>(v, t). (False, v, t)) (unsignedDecimal s))"

text \<open>The Number value of a literal: its value rounded to a double, with its sign.\<close>

definition numberValue :: "bool \<Rightarrow> literal_value \<Rightarrow> jsnum" where
  "numberValue negative v =
     (let n = (case v of InfinityLiteral \<Rightarrow> PosInf | Exact q \<Rightarrow> roundToDouble q)
      in if negative then negate n else n)"

text \<open>
  The global \<open>parseFloat\<close>: leading white space is skipped, the longest prefix that is
  a decimal literal is read, anything after it is ignored; \<open>NaN\<close> when there is none.
\<close>

definition parseFloat :: "string \<Rightarrow> jsnum" where
  "parseFloat s =
     (case strDecimalLiteral (skipWhiteSpace s) of
        None \<Rightarrow> NaN
      | Some (negative, v, rest) \<Rightarrow> numberValue negative v)"

text \<open>
  A string as a \<open>StringNumericLiteral\<close>: white space is trimmed at both ends, the empty
  string is \<open>0\<close>, and the whole of what is left must be one numeric literal (decimal, or
  \<open>0x\<close>/\<open>0o\<close>/\<open>0b\<close> followed by digits of that base). \<open>None\<close> when it is not one.
\<close>

definition radixDigit :: "nat \<Rightarrow> char \<Rightarrow> nat option" where
  "radixDigit b c =
     (let n = (of_char c :: nat);
          v = (if 48 \<le> n \<and> n \<le> 57 then Some (n - 48)
               else if 97 \<le> n \<and> n \<le> 102 then Some (n - 87)
               else if 65 \<le> n \<and> n \<le> 70 then Some (n - 55)
               else None)
      in case v of None \<Rightarrow> None | Some d \<Rightarrow> if d < b then Some d else None)"

definition radixLiteral :: "nat \<Rightarrow> string \<Rightarrow> (bool \<times> literal_value) option" where
  "radixLiteral b ds =
     (if ds \<noteq> [] \<and> list_all (\<lambda>c. radixDigit b c \<noteq> None) ds
      then Some (False, Exact (of_nat (foldl (\<lambda>a c. b * a + (case radixDigit b c of Some d \<Rightarrow> d | None \<Rightarrow> 0)) 0 ds)))
      else None)"

definition stringNumericLiteral :: "string \<Rightarrow> (bool \<times> literal_value) option" where
  "stringNumericLiteral s =
     (let t = trimWhiteSpace s
      in if t = [] then Some (False, Exact 0)
         else if take 2 t = ''0x'' \<or> take 2 t = ''0X'' then radixLiteral 16 (drop 2 t)
         else if take 2 t = ''0o'' \<or> take 2 t = ''0O'' then radixLiteral 8 (drop 2 t)
         else if take 2 t = ''0b'' \<or> take 2 t = ''0B'' then radixLiteral 2 (drop 2 t)
         else (case strDecimalLiteral t of
                 Some (negative, v, []) \<Rightarrow> Some (negative, v)
               | _ \<Rightarrow> None))"

text \<open>\<open>ToNumber\<close> on a string, and on any value.\<close>

definition stringToNumber :: "string \<Rightarrow> jsnum" where
  "stringToNumber s =
     (case stringNumericLiteral s of
        None \<Rightarrow> NaN
      | Some (negative, v) \<Rightarrow> numberValue negative v)"

fun toNumber :: "jsval \<Rightarrow> jsnum" where
  "toNumber Undefined = NaN"
| "toNumber Null = Fin 0"
| "toNumber (Bool b) = Fin (if b then 1 else 0)"
| "toNumber (Num n) = n"
| "toNumber (Str s) = stringToNumber s"

text \<open>The global \<open>isNaN\<close> coerces its argument with \<open>ToNumber\<close> first.\<close>

definition isNaN :: "jsval \<Rightarrow> bool" where
  "isNaN v \<longleftrightarrow> toNumber v = NaN"

text \<open>
  \<open>Math.min(...xs)\<close> and \<open>Math.max(...xs)\<close>: every argument is coerced; a \<open>NaN\<close>
  among them makes the result \<open>NaN\<close>; otherwise the running extreme starts at
  \<open>+Infinity\<close> (\<open>-Infinity\<close> for the maximum) and is replaced by each smaller (larger)
  argument, negative zero counting as smaller than positive zero.
\<close>

fun min_loop :: "jsnum \<Rightarrow> jsnum list \<Rightarrow> jsnum" where
  "min_loop lowest [] = lowest"
| "min_loop lowest (n # ns) =
     min_loop (if n = NegZero \<and> lowest = Fin 0 then NegZero
               else if num_less n lowest then n else lowest) ns"

fun max_loop :: "jsnum \<Rightarrow> jsnum list \<Rightarrow> jsnum" where
  "max_loop highest [] = highest"
| "max_loop highest (n # ns) =
     max_loop (if n = Fin 0 \<and> highest = NegZero then Fin 0
               else if num_less highest n then n else highest) ns"

definition Math_min :: "jsval list \<Rightarrow> jsnum" where
  "Math_min xs =
     (let coerced = map toNumber xs
      in if NaN \<in> set coerced then NaN else min_loop PosInf coerced)"

definition Math_max :: "jsval list \<Rightarrow> jsnum" where
  "Math_max xs =
     (let coerced = map toNumber xs
      in if NaN \<in> set coerced then NaN else max_loop NegInf coerced)"

subsection \<open>Currency formatting\<close>

text \<open>
  \<open>formatCurrency\<close> is \<open>new Intl.NumberFormat('en-US', {style: 'currency', currency:
  'USD', minimumFractionDigits: 0, maximumFractionDigits: 0}).format(amount)\<close>. The
  formatter takes a number as it is and a string as the exact value of its numeric
  literal (\<open>NaN\<close> when it is not one; an infinity or a zero when the literal rounds to
  one as a double). The value is rounded to an integer (halves away from zero) and
  written in decimal with a comma between groups of three digits, after \<open>$\<close> (\<open>-$\<close> when
  negative, negative zero included). \<open>NaN\<close> is written \<open>$NaN\<close> and an infinity with the
  infinity sign (the three bytes of its UTF-8 encoding). An engine older than the 2023
  edition of the internationalisation standard rounds the value of a string to a double
  first; a string that is no numeric literal is \<open>NaN\<close> either way.
\<close>

fun digitsOf :: "nat \<Rightarrow> string" where
  "digitsOf n =
     (if n < 10 then [''0123456789'' ! n]
      else digitsOf (n div 10) @ [''0123456789'' ! (n mod 10)])"

declare digitsOf.simps [simp del]

function groupThousands :: "string \<Rightarrow> string" where
  "groupThousands ds =
     (if length ds \<le> 3 then ds
      else groupThousands (take (length ds - 3) ds) @ '','' @ drop (length ds - 3) ds)"
  by pat_completeness auto
termination
  by (relation "measure length") auto

declare groupThousands.simps [simp del]

definition toIntlMathematicalValue :: "jsval \<Rightarrow> jsnum" where
  "toIntlMathematicalValue value =
     (case value of
        Str s \<Rightarrow>
          (case stringNumericLiteral s of
             None \<Rightarrow> NaN
           | Some (negative, InfinityLiteral) \<Rightarrow> if negative then NegInf else PosInf
           | Some (negative, Exact q) \<Rightarrow>
               let rounded = roundToDouble q
               in if rounded = PosInf then (if negative then NegInf else PosInf)
                  else if rounded = Fin 0 then (if negative then NegZero else Fin 0)
                  else Fin (if negative then - q else q))
      | _ \<Rightarrow> toNumber value)"

definition formatNumber :: "jsnum \<Rightarrow> string" where
  "formatNumber n =
     (case n of
        NaN \<Rightarrow> ''$NaN''
      | PosInf \<Rightarrow> ''$'' @ [CHR 0xE2, CHR 0x88, CHR 0x9E]
      | NegInf \<Rightarrow> ''-$'' @ [CHR 0xE2, CHR 0x88, CHR 0x9E]
      | NegZero \<Rightarrow> ''-$0''
      | Fin q \<Rightarrow>
          (if q < 0 then ''-$'' else ''$'') @
          groupThousands (digitsOf (nat \<lfloor>\<bar>q\<bar> + 1 / 2\<rfloor>)))"

definition formatCurrency :: "jsval \<Rightarrow> string" where
  "formatCurrency amount = formatNumber (toIntlMathematicalValue amount)"

section \<open>Upstream records and the page\<close>

text \<open>
  A record of the tabular service: an identifier and an object of named fields, kept as
  a key/value list. Reading a field that the object does not have gives \<open>undefined\<close>.
\<close>

record airtable_record =
  recordId :: string
  recordFields :: "(string \<times> jsval) list"

definition getField :: "(string \<times> jsval) list \<Rightarrow> string \<Rightarrow> jsval" where
  "getField fs k = (case map_of fs k of None \<Rightarrow> Undefined | Some v \<Rightarrow> v)"

text \<open>The derived lists handed to \<open>updateSchema\<close>: \<open>{ price }\<close> and \<open>{ question, answer }\<close>.\<close>

record pricing_datum =
  price :: jsval

record faq_datum =
  question :: jsval
  answer :: jsval

text \<open>
  The two JSON-LD documents. \<open>@context\<close> is \<open>https://schema.org\<close> in both and \<open>@type\<close>
  is \<open>Offer\<close> resp. \<open>FAQPage\<close>; each \<open>mainEntity\<close> member is a \<open>Question\<close> with a \<open>name\<close>
  and an \<open>acceptedAnswer\<close> of type \<open>Answer\<close> with a \<open>text\<close>. \<open>JSON.stringify\<close> is not
  modelled: a script element holds the object that is serialised into it.
\<close>

record offer_schema =
  priceCurrency :: string
  lowPrice :: jsnum
  highPrice :: jsnum
  offerCount :: nat
  availability :: string

record question_entity =
  entityName :: jsval
  acceptedAnswerText :: jsval

datatype json_ld = OfferDoc offer_schema | FAQPageDoc "question_entity list"

text \<open>
  The markup of a container, by kind: what the static page put there, the loading
  indicator, the error message, a "no data" paragraph, the pricing table (one row per
  record) or the accordion (one panel per record). A panel carries the identifier of its
  content element (its icon's is \<open>icon-\<close> followed by it) and the class lists of both;
  a class list is the ordered token list of a \<open>DOMTokenList\<close>.
\<close>

record pricing_row =
  rowUnitName :: jsval
  rowPrice :: string
  rowPromotion :: "jsval option"

record faq_panel =
  panelId :: string
  panelQuestion :: jsval
  panelAnswer :: jsval
  iconClasses :: "string list"
  contentClasses :: "string list"

datatype markup =
    Static string
  | Loading
  | ErrorMessage string
  | NoData string
  | PricingTable "pricing_row list"
  | Accordion "faq_panel list"

record element =
  innerHTML :: markup
  classList :: "string list"

text \<open>
  The state of the page script: the two containers found at load time (\<open>None\<close> when the
  page has no element of that identifier), the JSON-LD script elements of the document
  head in document order, by identifier, and the two module-level caches.
\<close>

record page =
  pricingContainer :: "element option"
  faqContainer :: "element option"
  headScripts :: "(string \<times> json_ld) list"
  globalPricingData :: "pricing_datum list"
  globalFaqData :: "faq_datum list"

definition classList_contains :: "string \<Rightarrow> string list \<Rightarrow> bool" where
  "classList_contains t cs \<longleftrightarrow> t \<in> set cs"

definition classList_add :: "string \<Rightarrow> string list \<Rightarrow> string list" where
  "classList_add t cs = (if t \<in> set cs then cs else cs @ [t])"

definition classList_remove :: "string list \<Rightarrow> string list \<Rightarrow> string list" where
  "classList_remove ts cs = filter (\<lambda>c. c \<notin> set ts) cs"

definition showLoading :: "element \<Rightarrow> element" where
  "showLoading e = e\<lparr>innerHTML := Loading\<rparr>"

definition showError :: "element \<Rightarrow> element" where
  "showError e = e\<lparr>innerHTML := ErrorMessage ''Unable to load current rates.''\<rparr>"

section \<open>Structured-data publisher\<close>

text \<open>
  \<open>injectJsonLd\<close>: the script element of that identifier is overwritten when there is
  one, and created and appended to the head otherwise.
\<close>

fun setScript :: "string \<Rightarrow> json_ld \<Rightarrow> (string \<times> json_ld) list \<Rightarrow> (string \<times> json_ld) list" where
  "setScript scriptId d [] = [(scriptId, d)]"
| "setScript scriptId d ((k, v) # es) =
     (if k = scriptId then (k, d) # es else (k, v) # setScript scriptId d es)"

definition injectJsonLd :: "json_ld \<Rightarrow> string \<Rightarrow> page \<Rightarrow> page" where
  "injectJsonLd schemaData scriptId s =
     s\<lparr>headScripts := setScript scriptId schemaData (headScripts s)\<rparr>"

definition offerSchema :: "pricing_datum list \<Rightarrow> offer_schema" where
  "offerSchema pricingData =
     (let prices = map price pricingData;
          minPrice = Math_min prices;
          maxPrice = Math_max prices
      in \<lparr>priceCurrency = ''USD'',
          lowPrice = minPrice,
          highPrice = maxPrice,
          offerCount = length pricingData,
          availability = ''https://schema.org/InStock''\<rparr>)"

definition faqSchema :: "faq_datum list \<Rightarrow> question_entity list" where
  "faqSchema faqData =
     map (\<lambda>item. \<lparr>entityName = question item, acceptedAnswerText = answer item\<rparr>) faqData"

text \<open>
  \<open>updateSchema(newPricingData, newFaqData)\<close>: an argument is \<open>null\<close> (\<open>None\<close>) or an
  array; an array, even an empty one, is truthy and replaces the cached list.
\<close>

definition updateSchema :: "pricing_datum list option \<Rightarrow> faq_datum list option \<Rightarrow> page \<Rightarrow> page" where
  "updateSchema newPricingData newFaqData s =
     (let s1 = (case newPricingData of None \<Rightarrow> s | Some p \<Rightarrow> s\<lparr>globalPricingData := p\<rparr>);
          s2 = (case newFaqData of None \<Rightarrow> s1 | Some f \<Rightarrow> s1\<lparr>globalFaqData := f\<rparr>);
          s3 = (if length (globalPricingData s2) > 0
                then injectJsonLd (OfferDoc (offerSchema (globalPricingData s2)))
                       ''dynamic-offer-schema'' s2
                else s2)
      in if length (globalFaqData s3) > 0
         then injectJsonLd (FAQPageDoc (faqSchema (globalFaqData s3))) ''dynamic-faq-schema'' s3
         else s3)"

text \<open>The document published under an identifier, as \<open>document.getElementById\<close> finds it.\<close>

definition published :: "page \<Rightarrow> string \<Rightarrow> json_ld option" where
  "published s scriptId = map_of (headScripts s) scriptId"

section \<open>Data renderer\<close>

subsection \<open>Pricing table and the derived pricing list\<close>

text \<open>One table row, as the \<open>forEach\<close> of both variants of the renderer builds it.\<close>

definition pricingRow :: "airtable_record \<Rightarrow> pricing_row" where
  "pricingRow r =
     (let fields = recordFields r;
          unitName = js_or (js_or (getField fields ''Unit Name'') (getField fields ''Name''))
                       (Str ''Apartment'');
          priceLabel = (if truthy (getField fields ''Current Price'')
                        then formatCurrency (getField fields ''Current Price'')
                        else ''Call for pricing'');
          promotion = getField fields ''Promotions''
      in \<lparr>rowUnitName = unitName,
          rowPrice = priceLabel,
          rowPromotion = (if truthy promotion then Some promotion else None)\<rparr>)"

text \<open>\<open>rawPrice.replace(/[$,]/g, '')\<close>\<close>

definition stripCurrency :: "string \<Rightarrow> string" where
  "stripCurrency s = filter (\<lambda>c. c \<noteq> CHR ''$'' \<and> c \<noteq> CHR '','') s"

definition normalizePrice :: "jsval \<Rightarrow> jsval" where
  "normalizePrice rawPrice =
     (case rawPrice of
        Str s \<Rightarrow> Num (parseFloat (stripCurrency s))
      | _ \<Rightarrow> rawPrice)"

definition collectPricingData :: "airtable_record list \<Rightarrow> pricing_datum list" where
  "collectPricingData records =
     filter (\<lambda>item. \<not> isNaN (price item) \<and> price item \<noteq> Null)
       (map (\<lambda>r. \<lparr>price = normalizePrice (getField (recordFields r) ''Current Price'')\<rparr>) records)"

subsection \<open>Accordion and the derived FAQ list\<close>

definition faqPanel :: "nat \<Rightarrow> airtable_record \<Rightarrow> faq_panel" where
  "faqPanel index r =
     (let fields = recordFields r;
          id = ''faq-'' @ digitsOf index
      in \<lparr>panelId = id,
          panelQuestion = js_or (getField fields ''Question'') (Str ''Question''),
          panelAnswer = js_or (getField fields ''Answer'') (Str ''Answer''),
          iconClasses = [''w-5'', ''h-5'', ''text-primary'', ''transform'',
                         ''transition-transform'', ''duration-200''],
          contentClasses = [''hidden'', ''bg-gray-50'', ''p-4'', ''border-t'', ''border-gray-100'',
                            ''text-secondary'', ''leading-relaxed'', ''prose'', ''max-w-none'']\<rparr>)"

definition accordionPanels :: "airtable_record list \<Rightarrow> faq_panel list" where
  "accordionPanels records = map (\<lambda>(index, r). faqPanel index r) (enumerate 0 records)"

definition collectFaqData :: "airtable_record list \<Rightarrow> faq_datum list" where
  "collectFaqData records =
     map (\<lambda>r. \<lparr>question = js_or (getField (recordFields r) ''Question'') (Str ''Question''),
               answer = js_or (getField (recordFields r) ''Answer'') (Str ''Answer'')\<rparr>) records"

subsection \<open>Direct-access variant: \<open>fetchPricing\<close> and \<open>fetchFAQ\<close>\<close>

text \<open>
  What an awaited \<open>fetch\<close> gives: a rejection with an error message, or a response with
  its \<open>ok\<close> flag and what \<open>response.json()\<close> gives (a rejection with a message, or the
  parsed object with its \<open>records\<close> member, \<open>None\<close> when the object has none).
\<close>

datatype 'a fetch_result = Rejected string | Resolved 'a

record airtable_payload =
  payloadRecords :: "airtable_record list option"

record airtable_response =
  ok :: bool
  json :: "string + airtable_payload"

text \<open>
  \<open>fetchPricing\<close>, given how its request settles. Every \<open>throw\<close> of the \<open>try\<close> block (the
  rejected fetch, the status check, the rejected \<open>json()\<close>, the \<open>length\<close> of a missing
  \<open>records\<close>) happens before the block changes anything, and ends in \<open>showError\<close>;
  the \<open>console.error\<close> of the handler is not modelled.
\<close>

definition fetchPricing :: "airtable_response fetch_result \<Rightarrow> page \<Rightarrow> page" where
  "fetchPricing settled s =
     (case pricingContainer s of
        None \<Rightarrow> s
      | Some c0 \<Rightarrow>
          let c = showLoading c0;
              caught = s\<lparr>pricingContainer := Some (showError c)\<rparr>
          in (case settled of
               Rejected e \<Rightarrow> caught
             | Resolved response \<Rightarrow>
                 if \<not> ok response then caught
                 else
                  (case json response of
                     Inl e \<Rightarrow> caught
                   | Inr data \<Rightarrow>
                     (case payloadRecords data of
                        None \<Rightarrow> caught
                      | Some records \<Rightarrow>
                          if length records = 0
                          then s\<lparr>pricingContainer :=
                                   Some (c\<lparr>innerHTML := NoData ''No availability at this time.''\<rparr>)\<rparr>
                          else
                            let c1 = c\<lparr>innerHTML := PricingTable (map pricingRow records)\<rparr>;
                                c2 = c1\<lparr>classList := classList_remove
                                        [''h-64'', ''flex'', ''items-center'', ''justify-center'']
                                        (classList c1)\<rparr>;
                                pricingData = collectPricingData records
                            in updateSchema (Some pricingData) None
                                 (s\<lparr>pricingContainer := Some c2\<rparr>)))))"

definition fetchFAQ :: "airtable_response fetch_result \<Rightarrow> page \<Rightarrow> page" where
  "fetchFAQ settled s =
     (case faqContainer s of
        None \<Rightarrow> s
      | Some c0 \<Rightarrow>
          let c = showLoading c0;
              caught = s\<lparr>faqContainer := Some (showError c)\<rparr>
          in (case settled of
               Rejected e \<Rightarrow> caught
             | Resolved response \<Rightarrow>
                 if \<not> ok response then caught
                 else
                  (case json response of
                     Inl e \<Rightarrow> caught
                   | Inr data \<Rightarrow>
                     (case payloadRecords data of
                        None \<Rightarrow> caught
                      | Some records \<Rightarrow>
                          if length records = 0
                          then s\<lparr>faqContainer :=
                                   Some (c\<lparr>innerHTML := NoData ''No FAQs available.''\<rparr>)\<rparr>
                          else
                            let c1 = c\<lparr>innerHTML := Accordion (accordionPanels records)\<rparr>;
                                c2 = c1\<lparr>classList := classList_remove
                                        [''min-h-[200px]'', ''flex'', ''items-center'', ''justify-center'']
                                        (classList c1)\<rparr>;
                                faqData = collectFaqData records
                            in updateSchema None (Some faqData)
                                 (s\<lparr>faqContainer := Some c2\<rparr>)))))"

subsection \<open>Proxied variant: \<open>fetchData\<close>, \<open>renderPricing\<close> and \<open>renderFAQ\<close>\<close>

text \<open>
  \<open>records\<close> is \<open>None\<close> when the payload has no such member: \<open>!records\<close> holds then,
  and never for an array.
\<close>

definition renderPricing :: "airtable_record list option \<Rightarrow> page \<Rightarrow> page" where
  "renderPricing records s =
     (case pricingContainer s of
        None \<Rightarrow> s
      | Some c \<Rightarrow>
          let noData = s\<lparr>pricingContainer :=
                          Some (c\<lparr>innerHTML := NoData ''No availability at this time.''\<rparr>)\<rparr>
          in (case records of
               None \<Rightarrow> noData
             | Some rs \<Rightarrow>
                 if length rs = 0 then noData
                 else
                   let c1 = c\<lparr>innerHTML := PricingTable (map pricingRow rs)\<rparr>;
                       c2 = c1\<lparr>classList := classList_remove
                               [''h-64'', ''flex'', ''items-center'', ''justify-center'']
                               (classList c1)\<rparr>;
                       c3 = c2\<lparr>classList := classList_remove
                               [''h-80'', ''flex'', ''items-center'', ''justify-center'']
                               (classList c2)\<rparr>;
                       pricingData = collectPricingData rs
                   in updateSchema (Some pricingData) None (s\<lparr>pricingContainer := Some c3\<rparr>)))"

definition renderFAQ :: "airtable_record list option \<Rightarrow> page \<Rightarrow> page" where
  "renderFAQ records s =
     (case faqContainer s of
        None \<Rightarrow> s
      | Some c \<Rightarrow>
          let noData = s\<lparr>faqContainer :=
                          Some (c\<lparr>innerHTML := NoData ''No FAQs available.''\<rparr>)\<rparr>
          in (case records of
               None \<Rightarrow> noData
             | Some rs \<Rightarrow>
                 if length rs = 0 then noData
                 else
                   let c1 = c\<lparr>innerHTML := Accordion (accordionPanels rs)\<rparr>;
                       c2 = c1\<lparr>classList := classList_remove
                               [''min-h-[200px]'', ''flex'', ''items-center'', ''justify-center'']
                               (classList c1)\<rparr>;
                       faqData = collectFaqData rs
                   in updateSchema None (Some faqData) (s\<lparr>faqContainer := Some c2\<rparr>)))"

text \<open>
  The response of \<open>fetch('/api/rates')\<close> as the page reads it: \<open>ok\<close>, \<open>status\<close> and what
  \<open>json()\<close> gives, an object with the members \<open>pricing\<close> and \<open>faq\<close> (each \<open>None\<close> when the
  object has none).
\<close>

record rates_payload =
  pricing :: "airtable_record list option"
  faq :: "airtable_record list option"

record rates_response =
  ratesOk :: bool
  ratesStatus :: nat
  ratesJson :: "string + rates_payload"

definition fetchData :: "rates_response fetch_result \<Rightarrow> page \<Rightarrow> page" where
  "fetchData settled s =
     (case (pricingContainer s, faqContainer s) of
        (Some p0, Some f0) \<Rightarrow>
          let s1 = s\<lparr>pricingContainer := Some (showLoading p0),
                     faqContainer := Some (showLoading f0)\<rparr>;
              caught = s1\<lparr>pricingContainer := Some (showError (showLoading p0)),
                          faqContainer := Some (showError (showLoading f0))\<rparr>
          in (case settled of
                Rejected e \<Rightarrow> caught
              | Resolved response \<Rightarrow>
                  if \<not> ratesOk response then caught
                  else
                    (case ratesJson response of
                       Inl e \<Rightarrow> caught
                     | Inr data \<Rightarrow> renderFAQ (faq data) (renderPricing (pricing data) s1)))
      | _ \<Rightarrow> s)"

subsection \<open>Accordion toggle\<close>

text \<open>
  \<open>document.getElementById\<close> is the browser's. Which element it finds for an identifier
  depends on the whole document: the static page, which is not part of the sources, and
  every element that the HTML parser creates from the markup assigned to \<open>innerHTML\<close>,
  into which the field values of the records are pasted as they are. The model takes the
  answer of the lookup as a parameter: no element (\<open>None\<close>), the icon or the content
  element of the panel at a position of the accordion, or another element of the
  document, numbered. Toggling changes class lists only, never an identifier or the
  place of an element, so the same lookup serves successive toggles.
\<close>

datatype node = IconNode nat | ContentNode nat | OtherElement nat

text \<open>
  The lookup in a document in which the icons and the content elements of the accordion,
  as the renderer wrote them, are the only elements with these identifiers: per panel, in
  document order, the icon and then the content element.
\<close>

fun findById :: "string \<Rightarrow> faq_panel list \<Rightarrow> nat \<Rightarrow> node option" where
  "findById i [] k = None"
| "findById i (p # ps) k =
     (if ''icon-'' @ panelId p = i then Some (IconNode k)
      else if panelId p = i then Some (ContentNode k)
      else findById i ps (Suc k))"

definition panelsOf :: "page \<Rightarrow> faq_panel list" where
  "panelsOf s =
     (case faqContainer s of
        None \<Rightarrow> []
      | Some c \<Rightarrow> (case innerHTML c of Accordion ps \<Rightarrow> ps | _ \<Rightarrow> []))"

definition panelLookup :: "page \<Rightarrow> string \<Rightarrow> node option" where
  "panelLookup s i = findById i (panelsOf s) 0"

text \<open>
  What the toggle works on: the page as the script wrote it, and the class lists of the
  other elements of the document.
\<close>

record document =
  appPage :: page
  otherClassLists :: "nat \<Rightarrow> string list"

definition setPanels :: "faq_panel list \<Rightarrow> page \<Rightarrow> page" where
  "setPanels ps s =
     s\<lparr>faqContainer := map_option (\<lambda>c. c\<lparr>innerHTML := Accordion ps\<rparr>) (faqContainer s)\<rparr>"

text \<open>
  An element of a panel is in the document while the accordion has a panel at that
  position; a lookup that names a panel the accordion does not have finds nothing.
\<close>

fun inDocument :: "node \<Rightarrow> document \<Rightarrow> bool" where
  "inDocument (IconNode k) d = (k < length (panelsOf (appPage d)))"
| "inDocument (ContentNode k) d = (k < length (panelsOf (appPage d)))"
| "inDocument (OtherElement e) d = True"

definition lookupIn :: "(string \<Rightarrow> node option) \<Rightarrow> document \<Rightarrow> string \<Rightarrow> node option" where
  "lookupIn getElementById d i =
     (case getElementById i of
        None \<Rightarrow> None
      | Some n \<Rightarrow> if inDocument n d then Some n else None)"

fun nodeClasses :: "node \<Rightarrow> document \<Rightarrow> string list" where
  "nodeClasses (IconNode k) d = iconClasses (panelsOf (appPage d) ! k)"
| "nodeClasses (ContentNode k) d = contentClasses (panelsOf (appPage d) ! k)"
| "nodeClasses (OtherElement e) d = otherClassLists d e"

fun setNodeClasses :: "node \<Rightarrow> string list \<Rightarrow> document \<Rightarrow> document" where
  "setNodeClasses (IconNode k) cs d =
     d\<lparr>appPage := setPanels ((panelsOf (appPage d))[k := (panelsOf (appPage d) ! k)\<lparr>iconClasses := cs\<rparr>])
                    (appPage d)\<rparr>"
| "setNodeClasses (ContentNode k) cs d =
     d\<lparr>appPage := setPanels ((panelsOf (appPage d))[k := (panelsOf (appPage d) ! k)\<lparr>contentClasses := cs\<rparr>])
                    (appPage d)\<rparr>"
| "setNodeClasses (OtherElement e) cs d = d\<lparr>otherClassLists := (otherClassLists d)(e := cs)\<rparr>"

text \<open>
  A call returns, or throws a \<open>TypeError\<close> (reading \<open>classList\<close> of \<open>null\<close>) and leaves
  the document as it was at the throw: unchanged when the content element is missing,
  with the content element already switched when only the icon is missing.
\<close>

datatype completion = Returned document | TypeError document

definition toggleAccordion :: "(string \<Rightarrow> node option) \<Rightarrow> string \<Rightarrow> document \<Rightarrow> completion" where
  "toggleAccordion getElementById i d =
     (let content = lookupIn getElementById d i;
          icon = lookupIn getElementById d (''icon-'' @ i)
      in (case content of
           None \<Rightarrow> TypeError d
         | Some c \<Rightarrow>
             if classList_contains ''hidden'' (nodeClasses c d)
             then
               (let d1 = setNodeClasses c (classList_remove [''hidden''] (nodeClasses c d)) d
                in (case icon of
                      None \<Rightarrow> TypeError d1
                    | Some ic \<Rightarrow>
                        Returned (setNodeClasses ic
                          (classList_add ''rotate-180'' (nodeClasses ic d1)) d1)))
             else
               (let d1 = setNodeClasses c (classList_add ''hidden'' (nodeClasses c d)) d
                in (case icon of
                      None \<Rightarrow> TypeError d1
                    | Some ic \<Rightarrow>
                        Returned (setNodeClasses ic
                          (classList_remove [''rotate-180''] (nodeClasses ic d1)) d1)))))"

text \<open>
  Two clicks in succession: each click is an event of its own, so the second toggle
  runs on the document the first one left, also when the first one threw.
\<close>

definition toggleTwice :: "(string \<Rightarrow> node option) \<Rightarrow> string \<Rightarrow> document \<Rightarrow> completion" where
  "toggleTwice getElementById i d =
     (case toggleAccordion getElementById i d of
        Returned d1 \<Rightarrow> toggleAccordion getElementById i d1
      | TypeError d1 \<Rightarrow> toggleAccordion getElementById i d1)"

section \<open>Proxy gateway\<close>

record http_request =
  requestMethod :: string

datatype response_body =
    EndBody
  | ErrorBody string "string option"
  | RatesBody "airtable_record list" "airtable_record list"

record http_response =
  statusCode :: nat
  responseHeaders :: "(string \<times> string) list"
  responseBody :: response_body

record fetch_call =
  url :: string
  authorization :: string

text \<open>
  How the two upstream requests settle, and which of them settles first: when both
  reject, \<open>Promise.all\<close> rejects with the reason of the one that rejected first.
\<close>

record upstream =
  pricingSettles :: "airtable_response fetch_result"
  faqSettles :: "airtable_response fetch_result"
  faqSettlesFirst :: bool

definition promiseAll ::
    "upstream \<Rightarrow> string + (airtable_response \<times> airtable_response)" where
  "promiseAll u =
     (case (pricingSettles u, faqSettles u) of
        (Rejected e1, Rejected e2) \<Rightarrow> Inl (if faqSettlesFirst u then e2 else e1)
      | (Rejected e1, Resolved _) \<Rightarrow> Inl e1
      | (Resolved _, Rejected e2) \<Rightarrow> Inl e2
      | (Resolved a, Resolved b) \<Rightarrow> Inr (a, b))"

definition corsHeaders :: "(string \<times> string) list" where
  "corsHeaders =
     [(''Access-Control-Allow-Origin'', ''*''),
      (''Access-Control-Allow-Methods'', ''GET, OPTIONS''),
      (''Access-Control-Allow-Headers'', ''Content-Type''),
      (''Content-Type'', ''application/json'')]"

definition BASE_ID :: string where
  "BASE_ID = ''appd7mB2vELacH4Fh''"

definition PRICING_TABLE_ID :: string where
  "PRICING_TABLE_ID = ''tbliVrYxBgWFJ3AF1''"

definition FAQ_TABLE_ID :: string where
  "FAQ_TABLE_ID = ''tblkfsPmorGvt1o2q''"

text \<open>\<open>records || []\<close>\<close>

definition orEmpty :: "'a list option \<Rightarrow> 'a list" where
  "orEmpty records = (case records of None \<Rightarrow> [] | Some rs \<Rightarrow> rs)"

text \<open>
  \<open>handler\<close>, given the request, \<open>process.env.AIRTABLE_API_KEY\<close> (\<open>None\<close> when unset)
  and how the upstream requests settle. It gives the response and the upstream requests
  it issued. The \<open>catch\<close> answers with the message of what the \<open>try\<close> block threw.
\<close>

definition handler ::
    "http_request \<Rightarrow> string option \<Rightarrow> upstream \<Rightarrow> http_response \<times> fetch_call list" where
  "handler request AIRTABLE_API_KEY u =
     (let respond = (\<lambda>code b. \<lparr>statusCode = code, responseHeaders = corsHeaders, responseBody = b\<rparr>)
      in if requestMethod request = ''OPTIONS'' then (respond 200 EndBody, [])
         else if requestMethod request \<noteq> ''GET''
         then (respond 405 (ErrorBody ''Method not allowed'' None), [])
         else
          (case AIRTABLE_API_KEY of
             None \<Rightarrow>
               (respond 500 (ErrorBody ''Server configuration error''
                               (Some ''Airtable API key not configured'')), [])
           | Some key \<Rightarrow>
               if key = [] then
                 (respond 500 (ErrorBody ''Server configuration error''
                                 (Some ''Airtable API key not configured'')), [])
               else
                 let calls =
                       [\<lparr>url = ''https://api.airtable.com/v0/'' @ BASE_ID @ ''/'' @ PRICING_TABLE_ID,
                         authorization = ''Bearer '' @ key\<rparr>,
                        \<lparr>url = ''https://api.airtable.com/v0/'' @ BASE_ID @ ''/'' @ FAQ_TABLE_ID,
                         authorization = ''Bearer '' @ key\<rparr>];
                     caught = (\<lambda>message. respond 500 (ErrorBody ''Failed to fetch data'' (Some message)))
                 in (case promiseAll u of
                       Inl e \<Rightarrow> (caught e, calls)
                     | Inr (pricingResponse, faqResponse) \<Rightarrow>
                         if \<not> ok pricingResponse \<or> \<not> ok faqResponse
                         then (caught ''Failed to fetch data from Airtable'', calls)
                         else
                           (case json pricingResponse of
                              Inl e \<Rightarrow> (caught e, calls)
                            | Inr pricingData \<Rightarrow>
                                (case json faqResponse of
                                   Inl e \<Rightarrow> (caught e, calls)
                                 | Inr faqData \<Rightarrow>
                                     (respond 200
                                        (RatesBody (orEmpty (payloadRecords pricingData))
                                                   (orEmpty (payloadRecords faqData))),
                                      calls))))))"

text \<open>
  The gateway's response as \<open>fetch('/api/rates')\<close> hands it to the page: \<open>ok\<close> for a
  status from 200 to 299, and the body parsed as JSON (an empty body does not parse).
\<close>

definition asRatesResponse :: "http_response \<Rightarrow> rates_response" where
  "asRatesResponse r =
     \<lparr>ratesOk = (200 \<le> statusCode r \<and> statusCode r \<le> 299),
      ratesStatus = statusCode r,
      ratesJson =
        (case responseBody r of
           EndBody \<Rightarrow> Inl ''Unexpected end of JSON input''
         | ErrorBody e m \<Rightarrow> Inr \<lparr>pricing = None, faq = None\<rparr>
         | RatesBody p f \<Rightarrow> Inr \<lparr>pricing = Some p, faq = Some f\<rparr>)\<rparr>"

text \<open>A page load of the proxied variant against the gateway.\<close>

definition loadViaGateway :: "string option \<Rightarrow> upstream \<Rightarrow> page \<Rightarrow> page" where
  "loadViaGateway key u s =
     fetchData (Resolved (asRatesResponse (fst (handler \<lparr>requestMethod = ''GET''\<rparr> key u)))) s"

section \<open>Notions used in the statements\<close>

text \<open>
  An upstream request fails when it rejects (a network error) or resolves with a
  status that is not a success.
\<close>

definition fetchFailed :: "airtable_response fetch_result \<Rightarrow> bool" where
  "fetchFailed r = (case r of Rejected e \<Rightarrow> True | Resolved response \<Rightarrow> \<not> ok response)"

text \<open>
  A request that resolves with a success status and a payload holding the given
  records.
\<close>

definition okResponse :: "airtable_record list \<Rightarrow> airtable_response fetch_result" where
  "okResponse rs = Resolved \<lparr>ok = True, json = Inr \<lparr>payloadRecords = Some rs\<rparr>\<rparr>"

text \<open>
  A price field that is absent (\<open>undefined\<close>, or \<open>null\<close>) or a string that
  \<open>parseFloat\<close> does not parse to a number once \<open>$\<close> and \<open>,\<close> are stripped.
\<close>

definition absentOrUnparsable :: "jsval \<Rightarrow> bool" where
  "absentOrUnparsable v =
     (case v of
        Undefined \<Rightarrow> True
      | Null \<Rightarrow> True
      | Str s \<Rightarrow> parseFloat (stripCurrency s) = NaN
      | _ \<Rightarrow> False)"

text \<open>
  The published documents agree with the caches: a non-empty cached list has its
  document in the head. This holds when the script starts and after every call of
  \<open>updateSchema\<close> (lemmas \<open>inSync_freshPage\<close> and \<open>inSync_updateSchema\<close>).
\<close>

definition inSync :: "page \<Rightarrow> bool" where
  "inSync s \<longleftrightarrow>
     (globalPricingData s \<noteq> [] \<longrightarrow>
        published s ''dynamic-offer-schema'' = Some (OfferDoc (offerSchema (globalPricingData s)))) \<and>
     (globalFaqData s \<noteq> [] \<longrightarrow>
        published s ''dynamic-faq-schema'' = Some (FAQPageDoc (faqSchema (globalFaqData s))))"

text \<open>
  The accordion as \<open>renderFAQ\<close> and \<open>fetchFAQ\<close> build it (lemmas
  \<open>accordionWellFormed_rendered\<close> and \<open>accordionWellFormed_fetched\<close>) and as the toggle
  keeps it (lemma \<open>wellFormed_toggled\<close>): the panels are numbered \<open>faq-0\<close>, \<open>faq-1\<close>,
  ... in order, and a panel's content is hidden exactly when its icon is not rotated.
  In such an accordion \<open>panelLookup\<close> finds the content element and the icon of every
  panel under their identifiers (lemma \<open>wellFormed_lookup\<close>).
\<close>

definition accordionWellFormed :: "page \<Rightarrow> bool" where
  "accordionWellFormed s \<longleftrightarrow>
     faqContainer s \<noteq> None \<and>
     map panelId (panelsOf s) = map (\<lambda>j. ''faq-'' @ digitsOf j) [0 ..< length (panelsOf s)] \<and>
     list_all (\<lambda>p. (''hidden'' \<in> set (contentClasses p)) = (''rotate-180'' \<notin> set (iconClasses p)))
       (panelsOf s)"

text \<open>
The class lists of a panel after one toggle.
\<close>

definition toggledPanel :: "faq_panel \<Rightarrow> faq_panel" where
  "toggledPanel p =
     (if ''hidden'' \<in> set (contentClasses p)
      then p\<lparr>contentClasses := classList_remove [''hidden''] (contentClasses p),
             iconClasses := classList_add ''rotate-180'' (iconClasses p)\<rparr>
      else p\<lparr>contentClasses := classList_add ''hidden'' (contentClasses p),
             iconClasses := classList_remove [''rotate-180''] (iconClasses p)\<rparr>)"

text \<open>
  A class list after its token \<open>t\<close> was removed and added again: the token moves to
  the end.
\<close>

definition reappended :: "string \<Rightarrow> string list \<Rightarrow> string list" where
  "reappended t cs = (if t \<in> set cs then filter (\<lambda>c. c \<noteq> t) cs @ [t] else cs)"

text \<open>
  A page as the script finds it: both containers with their placeholder classes, no
  JSON-LD script in the head, both caches empty.
\<close>

definition freshPage :: page where
  "freshPage =
     \<lparr>pricingContainer = Some \<lparr>innerHTML = Static [], classList = [''h-64'', ''flex'', ''items-center'', ''justify-center'']\<rparr>,
      faqContainer = Some \<lparr>innerHTML = Static [], classList = [''min-h-[200px]'', ''flex'', ''items-center'', ''justify-center'']\<rparr>,
      headScripts = [],
      globalPricingData = [],
      globalFaqData = []\<rparr>"

text \<open>
Records and upstream behaviours used as concrete inputs.
\<close>

definition faqRecord :: airtable_record where
  "faqRecord = \<lparr>recordId = ''recF'', recordFields = [(''Question'', Str ''Pets?''), (''Answer'', Str ''Yes'')]\<rparr>"

definition unpricedRecord :: airtable_record where
  "unpricedRecord = \<lparr>recordId = ''recU'', recordFields = [(''Unit Name'', Str ''Studio'')]\<rparr>"

definition tbdRecord :: airtable_record where
  "tbdRecord = \<lparr>recordId = ''recT'', recordFields = [(''Current Price'', Str ''TBD'')]\<rparr>"

definition dollarRecord :: airtable_record where
  "dollarRecord = \<lparr>recordId = ''recD'', recordFields = [(''Current Price'', Str ''$1,250'')]\<rparr>"

definition pricingDown :: upstream where
  "pricingDown = \<lparr>pricingSettles = Rejected ''connect ECONNREFUSED'',
                  faqSettles = okResponse [faqRecord], faqSettlesFirst = True\<rparr>"

definition pricingEmpty :: upstream where
  "pricingEmpty = \<lparr>pricingSettles = okResponse [],
                   faqSettles = okResponse [faqRecord], faqSettlesFirst = True\<rparr>"

section \<open>Lemmas about numbers and white space\<close>

lemma pow2_pred: "e \<le> 0 \<Longrightarrow> 2 * pow2 (e - 1) = pow2 e"
proof -
  assume "e \<le> 0"
  then have "nat (- (e - 1)) = Suc (nat (- e))" by simp
  then show ?thesis using \<open>e \<le> 0\<close> by (simp add: pow2_def)
qed

lemma scaleUp_integer:
  assumes "m \<in> \<int>" and "e \<le> 0"
  shows "fst (scaleUp (m, e)) \<in> \<int> \<and> fst (scaleUp (m, e)) * pow2 (snd (scaleUp (m, e))) = m * pow2 e"
  using assms
proof (induction "(m, e)" arbitrary: m e rule: scaleUp.induct)
  case (1 m e)
  show ?case
  proof (cases "m < 2 ^ 52 \<and> - 1074 < e")
    case True
    have i: "2 * m \<in> \<int>" using "1.prems"(1) by simp
    have e: "e - 1 \<le> 0" using "1.prems"(2) by simp
    have p: "2 * m * pow2 (e - 1) = m * pow2 e"
      using pow2_pred [OF "1.prems"(2)] by (simp add: mult.assoc mult.left_commute)
    have s: "scaleUp (m, e) = scaleUp (2 * m, e - 1)"
      using True by (subst scaleUp.simps) simp
    from "1.hyps" [OF True i e] show ?thesis
      unfolding s p .
  next
    case False
    then have "scaleUp (m, e) = (m, e)" by (subst scaleUp.simps) auto
    then show ?thesis using "1.prems" by simp
  qed
qed

lemma roundHalfEven_integer: "x \<in> \<int> \<Longrightarrow> of_int (roundHalfEven x) = x"
  by (auto simp: roundHalfEven_def Let_def elim!: Ints_cases)

lemma roundToDouble_nat:
  assumes "n < 2 ^ 53"
  shows "roundToDouble (of_nat n) = Fin (of_nat n)"
proof (cases "n = 0")
  case True
  then show ?thesis by (simp add: roundToDouble_def)
next
  case False
  let ?q = "of_nat n :: rat"
  have lt: "?q < 2 ^ 53"
  proof -
    have "?q < of_nat (2 ^ 53)" using assms by (simp only: of_nat_less_iff)
    then show ?thesis by simp
  qed
  then have d: "scaleDown (?q, 0) = (?q, 0)" by (simp add: scaleDown.simps [of ?q 0])
  obtain m e where u: "scaleUp (?q, 0) = (m, e)" by (cases "scaleUp (?q, 0)")
  have "fst (scaleUp (?q, 0)) \<in> \<int> \<and> fst (scaleUp (?q, 0)) * pow2 (snd (scaleUp (?q, 0))) = ?q * pow2 0"
    by (rule scaleUp_integer) simp_all
  then have mi: "m \<in> \<int>" and v: "m * pow2 e = ?q" by (simp_all add: u pow2_def)
  have r: "of_int (roundHalfEven m) * pow2 e = ?q"
    using roundHalfEven_integer [OF mi] v by simp
  have "?q < 2 ^ 1024"
    using lt by (rule less_trans) simp
  then show ?thesis
    using False by (simp add: roundToDouble_def d u r)
qed

lemma whiteSpacePrefix_other:
  assumes "c \<notin> set (map hd whiteSpaceChars)"
  shows "whiteSpacePrefix (c # r) = None"
proof -
  have "\<And>w. w \<in> set whiteSpaceChars \<Longrightarrow> take (length w) (c # r) \<noteq> w"
  proof
    fix w assume w: "w \<in> set whiteSpaceChars" and t: "take (length w) (c # r) = w"
    from w have "w \<noteq> []" by (auto simp: whiteSpaceChars_def)
    with t have "hd w = c" by (cases w) auto
    with w assms show False by force
  qed
  then show ?thesis by (auto simp: whiteSpacePrefix_def find_None_iff)
qed

lemma skipWhiteSpace_other:
  assumes "c \<notin> set (map hd whiteSpaceChars)"
  shows "skipWhiteSpace (c # r) = c # r"
  by (simp add: skipWhiteSpace.simps [of "c # r"] whiteSpacePrefix_other [OF assms])

lemma skipWhiteSpace_Nil [simp]: "skipWhiteSpace [] = []"
  by (simp add: skipWhiteSpace.simps [of "[]"] whiteSpacePrefix_def whiteSpaceChars_def)

lemma whiteSpaceSuffix_other:
  assumes "c \<notin> set (map last whiteSpaceChars)"
  shows "whiteSpaceSuffix (r @ [c]) = None"
proof -
  have "\<And>w. w \<in> set whiteSpaceChars \<Longrightarrow> drop (length (r @ [c]) - length w) (r @ [c]) \<noteq> w"
  proof
    fix w assume w: "w \<in> set whiteSpaceChars"
      and t: "drop (length (r @ [c]) - length w) (r @ [c]) = w"
    from w have ne: "w \<noteq> []" by (auto simp: whiteSpaceChars_def)
    have "last (drop (length (r @ [c]) - length w) (r @ [c])) = c"
      using ne by (subst last_drop) auto
    with t have "last w = c" by simp
    with w assms show False by force
  qed
  then show ?thesis by (auto simp: whiteSpaceSuffix_def find_None_iff)
qed

lemma dropWhiteSpaceEnd_other:
  assumes "c \<notin> set (map last whiteSpaceChars)"
  shows "dropWhiteSpaceEnd (r @ [c]) = r @ [c]"
  by (simp add: dropWhiteSpaceEnd.simps [of "r @ [c]"] whiteSpaceSuffix_other [OF assms])

section \<open>Lemmas about the publisher\<close>

lemma map_of_setScript: "map_of (setScript k d es) = (map_of es)(k \<mapsto> d)"
  by (induction es) (auto simp: fun_eq_iff)

lemma published_injectJsonLd:
  "published (injectJsonLd d k s) = (published s)(k \<mapsto> d)"
  by (simp add: published_def injectJsonLd_def map_of_setScript fun_eq_iff)

lemma min_loop_Fin: "min_loop (Fin a) (map Fin qs) = Fin (fold min qs a)"
  by (induction qs arbitrary: a) (auto simp: min_def)

lemma max_loop_Fin: "max_loop (Fin a) (map Fin qs) = Fin (fold max qs a)"
  by (induction qs arbitrary: a) (auto simp: max_def)

lemma Math_min_finite:
  assumes "qs \<noteq> []"
  shows "Math_min (map (\<lambda>q. Num (Fin q)) qs) = Fin (Min (set qs))"
proof -
  obtain q rest where qs: "qs = q # rest" using assms by (cases qs) auto
  have c: "map toNumber (map (\<lambda>q. Num (Fin q)) qs) = map Fin qs" by (simp add: comp_def)
  have n: "NaN \<notin> set (map Fin qs)" by auto
  have "Math_min (map (\<lambda>q. Num (Fin q)) qs) = min_loop PosInf (map Fin qs)"
    unfolding Math_min_def Let_def c using n by (simp only: if_False)
  also have "\<dots> = min_loop (Fin q) (map Fin rest)" by (simp add: qs)
  also have "\<dots> = Fin (fold min rest q)" by (rule min_loop_Fin)
  also have "fold min rest q = Min (set qs)" unfolding qs by (rule Min.set_eq_fold [symmetric])
  finally show ?thesis .
qed

lemma Math_max_finite:
  assumes "qs \<noteq> []"
  shows "Math_max (map (\<lambda>q. Num (Fin q)) qs) = Fin (Max (set qs))"
proof -
  obtain q rest where qs: "qs = q # rest" using assms by (cases qs) auto
  have c: "map toNumber (map (\<lambda>q. Num (Fin q)) qs) = map Fin qs" by (simp add: comp_def)
  have n: "NaN \<notin> set (map Fin qs)" by auto
  have "Math_max (map (\<lambda>q. Num (Fin q)) qs) = max_loop NegInf (map Fin qs)"
    unfolding Math_max_def Let_def c using n by (simp only: if_False)
  also have "\<dots> = max_loop (Fin q) (map Fin rest)" by (simp add: qs)
  also have "\<dots> = Fin (fold max rest q)" by (rule max_loop_Fin)
  also have "fold max rest q = Max (set qs)" unfolding qs by (rule Max.set_eq_fold [symmetric])
  finally show ?thesis .
qed

lemma injectJsonLd_frame [simp]:
  "globalPricingData (injectJsonLd d k s) = globalPricingData s"
  "globalFaqData (injectJsonLd d k s) = globalFaqData s"
  "pricingContainer (injectJsonLd d k s) = pricingContainer s"
  "faqContainer (injectJsonLd d k s) = faqContainer s"
  by (simp_all add: injectJsonLd_def)

lemma published_frame [simp]:
  "published (s\<lparr>globalPricingData := p\<rparr>) = published s"
  "published (s\<lparr>globalFaqData := f\<rparr>) = published s"
  "published (s\<lparr>pricingContainer := c\<rparr>) = published s"
  "published (s\<lparr>faqContainer := c\<rparr>) = published s"
  by (simp_all add: published_def fun_eq_iff)

lemma globalPricingData_updateSchema:
  "globalPricingData (updateSchema np nf s) = (case np of None \<Rightarrow> globalPricingData s | Some p \<Rightarrow> p)"
  by (simp add: updateSchema_def Let_def split: option.splits)

lemma globalFaqData_updateSchema:
  "globalFaqData (updateSchema np nf s) = (case nf of None \<Rightarrow> globalFaqData s | Some f \<Rightarrow> f)"
  by (simp add: updateSchema_def Let_def split: option.splits)

lemma containers_updateSchema [simp]:
  "pricingContainer (updateSchema np nf s) = pricingContainer s"
  "faqContainer (updateSchema np nf s) = faqContainer s"
  by (simp_all add: updateSchema_def Let_def split: option.splits)

lemma published_updateSchema:
  "published (updateSchema np nf s) =
     (let P = (case np of None \<Rightarrow> globalPricingData s | Some p \<Rightarrow> p);
          F = (case nf of None \<Rightarrow> globalFaqData s | Some f \<Rightarrow> f);
          m1 = (if P \<noteq> [] then (published s)(''dynamic-offer-schema'' \<mapsto> OfferDoc (offerSchema P))
                else published s)
      in if F \<noteq> [] then m1(''dynamic-faq-schema'' \<mapsto> FAQPageDoc (faqSchema F)) else m1)"
  by (simp add: updateSchema_def Let_def published_injectJsonLd split: option.splits)

lemma inSync_freshPage: "inSync freshPage"
  by (simp add: inSync_def freshPage_def)

lemma inSync_updateSchema: "inSync (updateSchema np nf s)"
  by (simp add: inSync_def globalPricingData_updateSchema globalFaqData_updateSchema
      published_updateSchema Let_def split: option.splits)

lemma updateSchema_pricingContainer_update:
  "updateSchema np nf (s\<lparr>pricingContainer := x\<rparr>) = (updateSchema np nf s)\<lparr>pricingContainer := x\<rparr>"
  by (simp add: updateSchema_def injectJsonLd_def Let_def split: option.splits)

lemma updateSchema_faqContainer_update:
  "updateSchema np nf (s\<lparr>faqContainer := x\<rparr>) = (updateSchema np nf s)\<lparr>faqContainer := x\<rparr>"
  by (simp add: updateSchema_def injectJsonLd_def Let_def split: option.splits)

section \<open>Lemmas about price normalization\<close>

lemma digit_not_special:
  assumes "isDecimalDigit c"
  shows "c \<notin> set (map hd whiteSpaceChars)" "c \<noteq> CHR ''-''" "c \<noteq> CHR ''+''" "c \<noteq> CHR ''I''"
    "c \<noteq> CHR ''$''" "c \<noteq> CHR '',''"
  using assms by (auto simp: isDecimalDigit_def whiteSpaceChars_def)

lemma parseFloat_digits:
  assumes "ds \<noteq> []" and "list_all isDecimalDigit ds" and "decimalValue ds < 2 ^ 53"
  shows "parseFloat ds = Fin (of_nat (decimalValue ds))"
proof -
  obtain c r where ds: "ds = c # r" using assms(1) by (cases ds) auto
  have c: "isDecimalDigit c" using assms(2) by (simp add: ds)
  have all: "\<forall>x \<in> set ds. isDecimalDigit x" using assms(2) by (simp add: list_all_iff)
  have w: "skipWhiteSpace ds = ds"
    unfolding ds by (rule skipWhiteSpace_other [OF digit_not_special(1) [OF c]])
  have tw: "takeWhile isDecimalDigit ds = ds" using all by (simp add: takeWhile_eq_all_conv)
  have dw: "dropWhile isDecimalDigit ds = []" using all by simp
  have inf: "take 8 ds \<noteq> ''Infinity''"
    using digit_not_special(4) [OF c] by (auto simp: ds)
  have u: "unsignedDecimal ds = Some (Exact (of_nat (decimalValue ds)), [])"
    unfolding unsignedDecimal_def using inf assms(1)
    by (simp add: tw dw Let_def exponentPart_def scale10_def)
  have "strDecimalLiteral ds = map_option (\<lambda>(v, t). (False, v, t)) (unsignedDecimal ds)"
    using digit_not_special(2,3) [OF c] by (simp add: strDecimalLiteral_def ds)
  then have "strDecimalLiteral ds = Some (False, Exact (of_nat (decimalValue ds)), [])"
    by (simp add: u)
  then show ?thesis
    by (simp add: parseFloat_def w numberValue_def roundToDouble_nat [OF assms(3)])
qed

lemma TBD_parse: "parseFloat ''TBD'' = NaN"
  by (simp add: parseFloat_def skipWhiteSpace_other whiteSpaceChars_def strDecimalLiteral_def
      unsignedDecimal_def isDecimalDigit_def Let_def)

lemma TBD_not_numeric: "stringNumericLiteral ''TBD'' = None"
proof -
  have "trimWhiteSpace ''TBD'' = ''TBD''"
    using dropWhiteSpaceEnd_other [of "CHR ''D''" "''TB''"]
    by (simp add: trimWhiteSpace_def skipWhiteSpace_other whiteSpaceChars_def)
  then show ?thesis
    by (simp add: stringNumericLiteral_def strDecimalLiteral_def unsignedDecimal_def
        isDecimalDigit_def Let_def)
qed

lemma dollar_not_numeric: "stringNumericLiteral ''$1,250'' = None"
proof -
  have "trimWhiteSpace ''$1,250'' = ''$1,250''"
    using dropWhiteSpaceEnd_other [of "CHR ''0''" "''$1,25''"]
    by (simp add: trimWhiteSpace_def skipWhiteSpace_other whiteSpaceChars_def)
  then show ?thesis
    by (simp add: stringNumericLiteral_def strDecimalLiteral_def unsignedDecimal_def
        isDecimalDigit_def Let_def)
qed

lemma TBD_formatted: "formatCurrency (Str ''TBD'') = ''$NaN''"
  by (simp add: formatCurrency_def toIntlMathematicalValue_def TBD_not_numeric formatNumber_def)

lemma dollar_formatted: "formatCurrency (Str ''$1,250'') = ''$NaN''"
  by (simp add: formatCurrency_def toIntlMathematicalValue_def dollar_not_numeric formatNumber_def)

lemma TBD_unparsable: "parseFloat (stripCurrency ''TBD'') = NaN"
  by (simp add: stripCurrency_def TBD_parse)

lemma example_normalize: "normalizePrice (Str ''$1,250'') = Num (Fin 1250)"
proof -
  have s: "stripCurrency ''$1,250'' = ''1250''" by (simp add: stripCurrency_def)
  have v: "decimalValue ''1250'' = 1250" by (simp add: decimalValue_def digitValue_def)
  have "parseFloat ''1250'' = Fin (of_nat (decimalValue ''1250''))"
    by (rule parseFloat_digits) (simp_all add: isDecimalDigit_def v)
  then show ?thesis by (simp add: normalizePrice_def s v)
qed


text \<open>
  A no-break space (U+00A0) before the price is white space for \<open>parseFloat\<close>: such a
  price is usable.
\<close>

lemma nbsp_price_parses:
  "parseFloat (stripCurrency (CHR 0xC2 # CHR 0xA0 # ''$1,250'')) = Fin 1250"
proof -
  have s: "stripCurrency (CHR 0xC2 # CHR 0xA0 # ''$1,250'') = CHR 0xC2 # CHR 0xA0 # ''1250''"
    by (simp add: stripCurrency_def)
  have k: "skipWhiteSpace ''1250'' = ''1250''"
    by (simp add: skipWhiteSpace_other whiteSpaceChars_def)
  have w: "skipWhiteSpace (CHR 0xC2 # CHR 0xA0 # ''1250'') = ''1250''"
    by (subst skipWhiteSpace.simps) (simp add: whiteSpacePrefix_def whiteSpaceChars_def k)
  have v: "decimalValue ''1250'' = 1250" by (simp add: decimalValue_def digitValue_def)
  have p: "parseFloat ''1250'' = Fin (of_nat (decimalValue ''1250''))"
    by (rule parseFloat_digits) (simp_all add: isDecimalDigit_def v)
  have "parseFloat (CHR 0xC2 # CHR 0xA0 # ''1250'') = parseFloat ''1250''"
    by (simp only: parseFloat_def w k)
  then show ?thesis by (simp only: s p v) simp
qed

lemma normalizePrice_unusable:
  assumes "absentOrUnparsable v"
  shows "isNaN (normalizePrice v) \<or> normalizePrice v = Null"
  using assms by (cases v) (simp_all add: absentOrUnparsable_def normalizePrice_def isNaN_def)

lemma collectPricingData_Cons:
  "collectPricingData (r # rs) =
     (let item = \<lparr>price = normalizePrice (getField (recordFields r) ''Current Price'')\<rparr>
      in if \<not> isNaN (price item) \<and> price item \<noteq> Null then item # collectPricingData rs
         else collectPricingData rs)"
  by (simp add: collectPricingData_def Let_def)

lemma collectPricingData_Nil [simp]: "collectPricingData [] = []"
  by (simp add: collectPricingData_def)

lemma collectPricingData_append:
  "collectPricingData (xs @ ys) = collectPricingData xs @ collectPricingData ys"
  by (simp add: collectPricingData_def)

lemma collectPricingData_all_unusable:
  assumes "\<forall>r \<in> set records. absentOrUnparsable (getField (recordFields r) ''Current Price'')"
  shows "collectPricingData records = []"
  using assms
proof (induction records)
  case Nil
  then show ?case by simp
next
  case (Cons r rs)
  have "absentOrUnparsable (getField (recordFields r) ''Current Price'')" using Cons.prems by simp
  from normalizePrice_unusable [OF this] Cons show ?case
    by (auto simp: collectPricingData_Cons Let_def)
qed

lemma priced_page:
  "published (renderPricing (Some [dollarRecord]) freshPage) ''dynamic-offer-schema'' =
     Some (OfferDoc \<lparr>priceCurrency = ''USD'', lowPrice = Fin 1250, highPrice = Fin 1250,
                     offerCount = 1, availability = ''https://schema.org/InStock''\<rparr>)"
  by (simp add: renderPricing_def freshPage_def Let_def published_updateSchema
      collectPricingData_Cons dollarRecord_def getField_def example_normalize isNaN_def
      offerSchema_def Math_min_def Math_max_def)

section \<open>Lemmas about the renderer and the gateway\<close>

lemma fetchPricing_failed:
  assumes "fetchFailed settled"
  shows "fetchPricing settled s =
           s\<lparr>pricingContainer :=
               map_option (\<lambda>c. c\<lparr>innerHTML := ErrorMessage ''Unable to load current rates.''\<rparr>)
                 (pricingContainer s)\<rparr>"
  using assms
  by (cases "pricingContainer s")
     (auto simp: fetchPricing_def fetchFailed_def showError_def showLoading_def Let_def
       split: fetch_result.splits)

lemma fetchFAQ_failed:
  assumes "fetchFailed settled"
  shows "fetchFAQ settled s =
           s\<lparr>faqContainer :=
               map_option (\<lambda>c. c\<lparr>innerHTML := ErrorMessage ''Unable to load current rates.''\<rparr>)
                 (faqContainer s)\<rparr>"
  using assms
  by (cases "faqContainer s")
     (auto simp: fetchFAQ_def fetchFailed_def showError_def showLoading_def Let_def
       split: fetch_result.splits)

lemma fetchFAQ_pricingContainer_update:
  "fetchFAQ r (s\<lparr>pricingContainer := x\<rparr>) = (fetchFAQ r s)\<lparr>pricingContainer := x\<rparr>"
  by (cases "faqContainer s")
     (auto simp: fetchFAQ_def Let_def updateSchema_pricingContainer_update
       updateSchema_faqContainer_update
       split: fetch_result.splits sum.splits option.splits)

lemma fetchPricing_faqContainer_update:
  "fetchPricing r (s\<lparr>faqContainer := x\<rparr>) = (fetchPricing r s)\<lparr>faqContainer := x\<rparr>"
  by (cases "pricingContainer s")
     (auto simp: fetchPricing_def Let_def updateSchema_pricingContainer_update
       updateSchema_faqContainer_update
       split: fetch_result.splits sum.splits option.splits)

lemma handler_upstream_failure:
  assumes "requestMethod request = ''GET''" and "key = Some k" and "k \<noteq> []"
    and "fetchFailed (pricingSettles u) \<or> fetchFailed (faqSettles u)"
  shows "fst (handler request key u) =
           \<lparr>statusCode = 500, responseHeaders = corsHeaders,
            responseBody =
              ErrorBody ''Failed to fetch data''
                (Some (case (pricingSettles u, faqSettles u) of
                         (Rejected e1, Rejected e2) \<Rightarrow> if faqSettlesFirst u then e2 else e1
                       | (Rejected e1, Resolved r2) \<Rightarrow> e1
                       | (Resolved r1, Rejected e2) \<Rightarrow> e2
                       | (Resolved r1, Resolved r2) \<Rightarrow> ''Failed to fetch data from Airtable''))\<rparr>"
  using assms
  by (auto simp: handler_def promiseAll_def fetchFailed_def split: fetch_result.splits)

lemma fetchFAQ_pricingContainer [simp]: "pricingContainer (fetchFAQ r s) = pricingContainer s"
  by (cases "faqContainer s")
     (auto simp: fetchFAQ_def Let_def split: fetch_result.splits sum.splits option.splits)

lemma fetchPricing_faqContainer [simp]: "faqContainer (fetchPricing r s) = faqContainer s"
  by (cases "pricingContainer s")
     (auto simp: fetchPricing_def Let_def split: fetch_result.splits sum.splits option.splits)

lemma globalFaqData_fetchPricing [simp]: "globalFaqData (fetchPricing r s) = globalFaqData s"
  by (cases "pricingContainer s")
     (auto simp: fetchPricing_def Let_def globalFaqData_updateSchema
       split: fetch_result.splits sum.splits option.splits)

lemma globalPricingData_fetchFAQ [simp]: "globalPricingData (fetchFAQ r s) = globalPricingData s"
  by (cases "faqContainer s")
     (auto simp: fetchFAQ_def Let_def globalPricingData_updateSchema
       split: fetch_result.splits sum.splits option.splits)

lemma fetchFAQ_own_state:
  assumes "faqContainer s = faqContainer s'" and "globalFaqData s = globalFaqData s'"
  shows "faqContainer (fetchFAQ r s) = faqContainer (fetchFAQ r s')"
    and "globalFaqData (fetchFAQ r s) = globalFaqData (fetchFAQ r s')"
  using assms
  by (auto simp: fetchFAQ_def Let_def globalFaqData_updateSchema
      split: fetch_result.splits sum.splits option.splits)

lemma fetchPricing_own_state:
  assumes "pricingContainer s = pricingContainer s'" and "globalPricingData s = globalPricingData s'"
  shows "pricingContainer (fetchPricing r s) = pricingContainer (fetchPricing r s')"
    and "globalPricingData (fetchPricing r s) = globalPricingData (fetchPricing r s')"
  using assms
  by (auto simp: fetchPricing_def Let_def globalPricingData_updateSchema
      split: fetch_result.splits sum.splits option.splits)

lemma loadViaGateway_failure:
  assumes "key = Some k" and "k \<noteq> []"
    and "fetchFailed (pricingSettles u) \<or> fetchFailed (faqSettles u)"
    and "pricingContainer t = Some p" and "faqContainer t = Some f"
  shows "loadViaGateway key u t =
           t\<lparr>pricingContainer := Some (p\<lparr>innerHTML := ErrorMessage ''Unable to load current rates.''\<rparr>),
             faqContainer := Some (f\<lparr>innerHTML := ErrorMessage ''Unable to load current rates.''\<rparr>)\<rparr>"
proof -
  have "statusCode (fst (handler \<lparr>requestMethod = ''GET''\<rparr> key u)) = 500"
    using handler_upstream_failure [of "\<lparr>requestMethod = ''GET''\<rparr>" key k u] assms(1-3) by simp
  then have "\<not> ratesOk (asRatesResponse (fst (handler \<lparr>requestMethod = ''GET''\<rparr> key u)))"
    by (simp add: asRatesResponse_def)
  then show ?thesis
    by (simp add: loadViaGateway_def fetchData_def assms(4,5) Let_def showError_def showLoading_def)
qed

section \<open>Lemmas about the accordion\<close>

lemma decimalValue_snoc: "decimalValue (ds @ [c]) = 10 * decimalValue ds + digitValue c"
  by (simp add: decimalValue_def)

lemma digitValue_digit: "d < 10 \<Longrightarrow> digitValue (''0123456789'' ! d) = d"
proof -
  assume "d < 10"
  then have "d \<in> {0, 1, 2, 3, 4, 5, 6, 7, 8, 9}" by auto
  then show ?thesis by (auto simp: digitValue_def)
qed

lemma decimalValue_digitsOf: "decimalValue (digitsOf n) = n"
proof (induction n rule: digitsOf.induct)
  case (1 n)
  show ?case
  proof (cases "n < 10")
    case True
    then show ?thesis
      using digitValue_digit [of n] decimalValue_snoc [of "[]" "''0123456789'' ! n"]
      by (simp add: digitsOf.simps [of n] decimalValue_def)
  next
    case False
    then have "decimalValue (digitsOf n) = 10 * decimalValue (digitsOf (n div 10)) + digitValue (''0123456789'' ! (n mod 10))"
      by (simp add: digitsOf.simps [of n] decimalValue_snoc)
    also have "\<dots> = 10 * (n div 10) + n mod 10"
      using "1.IH" False digitValue_digit [of "n mod 10"] by simp
    finally show ?thesis by simp
  qed
qed

lemma digitsOf_inj: "digitsOf a = digitsOf b \<Longrightarrow> a = b"
  by (metis decimalValue_digitsOf)

lemma findById_content:
  assumes "map panelId ps = map (\<lambda>j. ''faq-'' @ digitsOf j) [n ..< n + length ps]"
    and "n \<le> k" and "k < n + length ps"
  shows "findById (''faq-'' @ digitsOf k) ps n = Some (ContentNode k)"
  using assms
proof (induction ps arbitrary: n)
  case Nil
  then show ?case by simp
next
  case (Cons p ps)
  have upt: "[n ..< n + length (p # ps)] = n # [Suc n ..< Suc n + length ps]"
    using upt_conv_Cons [of n "Suc n + length ps"] by simp
  from Cons.prems(1) have pid: "panelId p = ''faq-'' @ digitsOf n"
    and rest: "map panelId ps = map (\<lambda>j. ''faq-'' @ digitsOf j) [Suc n ..< Suc n + length ps]"
    unfolding upt by simp_all
  show ?case
  proof (cases "k = n")
    case True
    then show ?thesis by (simp add: pid)
  next
    case False
    then have "digitsOf n \<noteq> digitsOf k" using digitsOf_inj by blast
    moreover have "Suc n \<le> k" "k < Suc n + length ps" using False Cons.prems(2,3) by simp_all
    ultimately show ?thesis using Cons.IH [OF rest] by (simp add: pid)
  qed
qed

lemma findById_icon:
  assumes "map panelId ps = map (\<lambda>j. ''faq-'' @ digitsOf j) [n ..< n + length ps]"
    and "n \<le> k" and "k < n + length ps"
  shows "findById (''icon-'' @ ''faq-'' @ digitsOf k) ps n = Some (IconNode k)"
  using assms
proof (induction ps arbitrary: n)
  case Nil
  then show ?case by simp
next
  case (Cons p ps)
  have upt: "[n ..< n + length (p # ps)] = n # [Suc n ..< Suc n + length ps]"
    using upt_conv_Cons [of n "Suc n + length ps"] by simp
  from Cons.prems(1) have pid: "panelId p = ''faq-'' @ digitsOf n"
    and rest: "map panelId ps = map (\<lambda>j. ''faq-'' @ digitsOf j) [Suc n ..< Suc n + length ps]"
    unfolding upt by simp_all
  show ?case
  proof (cases "k = n")
    case True
    then show ?thesis by (simp add: pid)
  next
    case False
    then have "digitsOf n \<noteq> digitsOf k" using digitsOf_inj by blast
    moreover have "Suc n \<le> k" "k < Suc n + length ps" using False Cons.prems(2,3) by simp_all
    ultimately show ?thesis using Cons.IH [OF rest] by (simp add: pid)
  qed
qed

lemma wellFormed_lookup:
  assumes "accordionWellFormed s" and "k < length (panelsOf s)"
  shows "panelLookup s (''faq-'' @ digitsOf k) = Some (ContentNode k)"
    and "panelLookup s (''icon-'' @ ''faq-'' @ digitsOf k) = Some (IconNode k)"
  using assms findById_content [of "panelsOf s" 0 k] findById_icon [of "panelsOf s" 0 k]
  by (simp_all add: accordionWellFormed_def panelLookup_def)

lemma panelsOf_nonempty: "k < length (panelsOf s) \<Longrightarrow> faqContainer s \<noteq> None"
  by (auto simp: panelsOf_def split: option.splits)

lemma panelsOf_setPanels: "faqContainer s \<noteq> None \<Longrightarrow> panelsOf (setPanels ps s) = ps"
  by (auto simp: panelsOf_def setPanels_def)

lemma setPanels_setPanels: "setPanels ps2 (setPanels ps1 s) = setPanels ps2 s"
  by (cases "faqContainer s") (simp_all add: setPanels_def)

lemma setPanels_frame [simp]:
  "globalPricingData (setPanels ps s) = globalPricingData s"
  "globalFaqData (setPanels ps s) = globalFaqData s"
  "headScripts (setPanels ps s) = headScripts s"
  "pricingContainer (setPanels ps s) = pricingContainer s"
  "map_option classList (faqContainer (setPanels ps s)) = map_option classList (faqContainer s)"
  "(faqContainer (setPanels ps s) = None) = (faqContainer s = None)"
  by (simp_all add: setPanels_def option.map_comp comp_def)

lemma toggle_once:
  assumes "k < length (panelsOf (appPage d))"
    and "getElementById i = Some (ContentNode k)"
    and "getElementById (''icon-'' @ i) = Some (IconNode k)"
  shows "toggleAccordion getElementById i d =
           Returned (d\<lparr>appPage :=
             setPanels ((panelsOf (appPage d))[k := toggledPanel (panelsOf (appPage d) ! k)]) (appPage d)\<rparr>)"
  using assms panelsOf_nonempty [OF assms(1)]
  by (simp add: toggleAccordion_def lookupIn_def Let_def classList_contains_def toggledPanel_def
      panelsOf_setPanels setPanels_setPanels)

lemma toggledPanel_consistent:
  "(''hidden'' \<in> set (contentClasses (toggledPanel p))) =
   (''rotate-180'' \<notin> set (iconClasses (toggledPanel p)))"
  by (simp add: toggledPanel_def classList_add_def classList_remove_def)

lemma toggledPanel_id [simp]:
  "panelId (toggledPanel p) = panelId p"
  "panelQuestion (toggledPanel p) = panelQuestion p"
  "panelAnswer (toggledPanel p) = panelAnswer p"
  by (simp_all add: toggledPanel_def)

lemma filter_absent: "t \<notin> set cs \<Longrightarrow> filter (\<lambda>c. c \<noteq> t) cs = cs"
  by (induction cs) auto

lemma toggledPanel_twice:
  assumes "(''hidden'' \<in> set (contentClasses p)) = (''rotate-180'' \<notin> set (iconClasses p))"
  shows "toggledPanel (toggledPanel p) =
           p\<lparr>contentClasses := reappended ''hidden'' (contentClasses p),
             iconClasses := reappended ''rotate-180'' (iconClasses p)\<rparr>"
  using assms
  by (auto simp: toggledPanel_def classList_add_def classList_remove_def reappended_def
      filter_absent)

lemma set_reappended [simp]: "set (reappended t cs) = set cs"
  by (auto simp: reappended_def)

lemma map_panelId_update:
  "k < length ps \<Longrightarrow> map panelId (ps[k := toggledPanel (ps ! k)]) = map panelId ps"
  by (simp add: list_eq_iff_nth_eq nth_list_update)

lemma wellFormed_toggled:
  assumes "accordionWellFormed s" and "k < length (panelsOf s)"
  shows "accordionWellFormed (setPanels ((panelsOf s)[k := toggledPanel (panelsOf s ! k)]) s)"
proof -
  let ?ps = "panelsOf s"
  let ?ps' = "?ps[k := toggledPanel (?ps ! k)]"
  have c: "faqContainer s \<noteq> None" using assms(1) by (simp add: accordionWellFormed_def)
  have ids: "map panelId ?ps' = map (\<lambda>j. ''faq-'' @ digitsOf j) [0 ..< length ?ps']"
    using assms by (simp add: accordionWellFormed_def map_panelId_update)
  have "\<forall>p \<in> set ?ps. (''hidden'' \<in> set (contentClasses p)) = (''rotate-180'' \<notin> set (iconClasses p))"
    using assms(1) by (simp add: accordionWellFormed_def list_all_iff)
  then have "\<forall>p \<in> set ?ps'. (''hidden'' \<in> set (contentClasses p)) = (''rotate-180'' \<notin> set (iconClasses p))"
    using toggledPanel_consistent [of "?ps ! k"] set_update_subset_insert [of ?ps k "toggledPanel (?ps ! k)"]
    by blast
  then show ?thesis
    using c ids by (simp add: accordionWellFormed_def panelsOf_setPanels list_all_iff)
qed

lemma toggle_twice:
  assumes "k < length (panelsOf (appPage d))"
    and "getElementById i = Some (ContentNode k)"
    and "getElementById (''icon-'' @ i) = Some (IconNode k)"
    and "(''hidden'' \<in> set (contentClasses (panelsOf (appPage d) ! k))) =
         (''rotate-180'' \<notin> set (iconClasses (panelsOf (appPage d) ! k)))"
  shows "toggleTwice getElementById i d =
           Returned (d\<lparr>appPage := setPanels ((panelsOf (appPage d))[k := (panelsOf (appPage d) ! k)
              \<lparr>contentClasses := reappended ''hidden'' (contentClasses (panelsOf (appPage d) ! k)),
               iconClasses := reappended ''rotate-180'' (iconClasses (panelsOf (appPage d) ! k))\<rparr>])
              (appPage d)\<rparr>)"
proof -
  let ?ps = "panelsOf (appPage d)"
  let ?d1 = "d\<lparr>appPage := setPanels (?ps[k := toggledPanel (?ps ! k)]) (appPage d)\<rparr>"
  have c: "faqContainer (appPage d) \<noteq> None" by (rule panelsOf_nonempty [OF assms(1)])
  have p1: "panelsOf (appPage ?d1) = ?ps[k := toggledPanel (?ps ! k)]"
    by (simp add: panelsOf_setPanels [OF c])
  have k1: "k < length (panelsOf (appPage ?d1))" unfolding p1 using assms(1) by simp
  have "toggleTwice getElementById i d = toggleAccordion getElementById i ?d1"
    by (simp only: toggleTwice_def toggle_once [OF assms(1-3)] completion.case)
  also have "\<dots> = Returned (?d1\<lparr>appPage :=
      setPanels ((panelsOf (appPage ?d1))[k := toggledPanel (panelsOf (appPage ?d1) ! k)]) (appPage ?d1)\<rparr>)"
    by (rule toggle_once [OF k1 assms(2,3)])
  also have "\<dots> = Returned (d\<lparr>appPage := setPanels (?ps[k := toggledPanel (toggledPanel (?ps ! k))]) (appPage d)\<rparr>)"
    using assms(1) by (simp add: panelsOf_setPanels [OF c] setPanels_setPanels)
  finally show ?thesis by (simp add: toggledPanel_twice [OF assms(4)])
qed

text \<open>
  When the lookup of the identifier finds an element outside the accordion, such as one
  created from markup in an answer, while the icon is the panel's own, two toggles leave
  the icon rotated: the hypothesis of \<open>toggle_twice\<close> on the lookup is needed.
\<close>

lemma toggle_other_content_twice:
  assumes "k < length (panelsOf (appPage d))"
    and "getElementById i = Some (OtherElement e)"
    and "getElementById (''icon-'' @ i) = Some (IconNode k)"
    and "''hidden'' \<notin> set (otherClassLists d e)"
    and "''rotate-180'' \<notin> set (iconClasses (panelsOf (appPage d) ! k))"
  shows "toggleTwice getElementById i d =
           Returned (d\<lparr>appPage := setPanels ((panelsOf (appPage d))[k := (panelsOf (appPage d) ! k)
               \<lparr>iconClasses := iconClasses (panelsOf (appPage d) ! k) @ [''rotate-180'']\<rparr>]) (appPage d)\<rparr>)"
proof -
  have c: "faqContainer (appPage d) \<noteq> None" by (rule panelsOf_nonempty [OF assms(1)])
  show ?thesis
    using assms
    by (simp add: toggleTwice_def toggleAccordion_def lookupIn_def Let_def classList_contains_def
        classList_add_def classList_remove_def panelsOf_setPanels [OF c] setPanels_setPanels
        filter_absent)
qed

lemma panelsOf_updateSchema [simp]: "panelsOf (updateSchema np nf s) = panelsOf s"
  by (simp add: panelsOf_def)

lemma map_panelId_accordionPanels:
  "map panelId (accordionPanels records) = map (\<lambda>j. ''faq-'' @ digitsOf j) [0 ..< length records]"
proof -
  have "map panelId (accordionPanels records) =
          map ((\<lambda>j. ''faq-'' @ digitsOf j) \<circ> fst) (enumerate 0 records)"
    by (simp add: accordionPanels_def faqPanel_def Let_def case_prod_unfold comp_def)
  also have "\<dots> = map (\<lambda>j. ''faq-'' @ digitsOf j) (map fst (enumerate 0 records))"
    by (simp only: map_map)
  also have "\<dots> = map (\<lambda>j. ''faq-'' @ digitsOf j) [0 ..< length records]"
    by (simp only: map_fst_enumerate add_0)
  finally show ?thesis .
qed

lemma accordionPanels_closed:
  "p \<in> set (accordionPanels records) \<Longrightarrow>
     ''hidden'' \<in> set (contentClasses p) \<and> ''rotate-180'' \<notin> set (iconClasses p)"
  by (auto simp: accordionPanels_def faqPanel_def Let_def)

lemma length_accordionPanels [simp]: "length (accordionPanels records) = length records"
  by (simp add: accordionPanels_def)

lemma panelsOf_renderFAQ:
  assumes "faqContainer s \<noteq> None" and "records \<noteq> []"
  shows "panelsOf (renderFAQ (Some records) s) = accordionPanels records"
    and "panelsOf (fetchFAQ (okResponse records) s) = accordionPanels records"
  using assms
  by (auto simp: renderFAQ_def fetchFAQ_def okResponse_def Let_def panelsOf_def [of "_\<lparr>faqContainer := _\<rparr>"])

lemma faqContainer_renderFAQ:
  "(faqContainer (renderFAQ records s) = None) = (faqContainer s = None)"
  by (cases "faqContainer s") (auto simp: renderFAQ_def Let_def split: option.splits)

lemma accordionWellFormed_rendered:
  assumes "faqContainer s \<noteq> None" and "records \<noteq> []"
  shows "accordionWellFormed (renderFAQ (Some records) s)"
  using assms accordionPanels_closed [of _ records]
  by (auto simp: accordionWellFormed_def panelsOf_renderFAQ(1) faqContainer_renderFAQ
      map_panelId_accordionPanels list_all_iff)

lemma faqContainer_fetchFAQ:
  "(faqContainer (fetchFAQ settled s) = None) = (faqContainer s = None)"
  by (cases "faqContainer s")
     (auto simp: fetchFAQ_def Let_def split: option.splits fetch_result.splits sum.splits)

lemma accordionWellFormed_fetched:
  assumes "faqContainer s \<noteq> None" and "records \<noteq> []"
  shows "accordionWellFormed (fetchFAQ (okResponse records) s)"
  using assms accordionPanels_closed [of _ records]
  by (auto simp: accordionWellFormed_def panelsOf_renderFAQ(2) faqContainer_fetchFAQ
      map_panelId_accordionPanels list_all_iff)

lemma wellFormed_toggledTwice:
  assumes "accordionWellFormed s" and "k < length (panelsOf s)"
  shows "accordionWellFormed (setPanels ((panelsOf s)[k := (panelsOf s ! k)
              \<lparr>contentClasses := reappended ''hidden'' (contentClasses (panelsOf s ! k)),
               iconClasses := reappended ''rotate-180'' (iconClasses (panelsOf s ! k))\<rparr>]) s)"
proof -
  let ?ps = "panelsOf s"
  let ?p' = "(?ps ! k)\<lparr>contentClasses := reappended ''hidden'' (contentClasses (?ps ! k)),
               iconClasses := reappended ''rotate-180'' (iconClasses (?ps ! k))\<rparr>"
  let ?ps' = "?ps[k := ?p']"
  have c: "faqContainer s \<noteq> None" using assms(1) by (simp add: accordionWellFormed_def)
  have "map panelId ?ps' = map panelId ?ps"
    using assms(2) by (simp add: list_eq_iff_nth_eq nth_list_update)
  then have ids: "map panelId ?ps' = map (\<lambda>j. ''faq-'' @ digitsOf j) [0 ..< length ?ps']"
    using assms(1) by (simp add: accordionWellFormed_def)
  have all: "\<forall>p \<in> set ?ps. (''hidden'' \<in> set (contentClasses p)) = (''rotate-180'' \<notin> set (iconClasses p))"
    using assms(1) by (simp add: accordionWellFormed_def list_all_iff)
  then have "(''hidden'' \<in> set (contentClasses ?p')) = (''rotate-180'' \<notin> set (iconClasses ?p'))"
    using assms(2) by simp
  then have "\<forall>p \<in> set ?ps'. (''hidden'' \<in> set (contentClasses p)) = (''rotate-180'' \<notin> set (iconClasses p))"
    using all set_update_subset_insert [of ?ps k ?p'] by blast
  then show ?thesis
    using c ids by (simp add: accordionWellFormed_def panelsOf_setPanels list_all_iff)
qed

section \<open>Properties of the structured-data publisher\<close>

text \<open>
  Claim C1, as the code has it. From a page whose documents agree with its caches,
  \<open>updateSchema(P, null)\<close> and \<open>updateSchema(null, F)\<close> in either order leave the same
  cached lists (\<open>P\<close> and \<open>F\<close>) and the same document under every script identifier. The
  Offer document is the one computed from \<open>P\<close> when \<open>P\<close> is not empty, and the FAQPage
  document the one computed from \<open>F\<close> when \<open>F\<close> is not empty; for an empty list nothing is
  published and the document of that kind stays what it was. A \<open>null\<close> argument leaves
  the corresponding cached list untouched.
\<close>

theorem updateSchema_order_independent:
  assumes "inSync s"
  shows "let a = updateSchema None (Some F) (updateSchema (Some P) None s);
             b = updateSchema (Some P) None (updateSchema None (Some F) s)
         in globalPricingData a = P \<and> globalPricingData b = P
          \<and> globalFaqData a = F \<and> globalFaqData b = F
          \<and> published a = published b
          \<and> published a ''dynamic-offer-schema'' =
              (if P \<noteq> [] then Some (OfferDoc (offerSchema P))
               else published s ''dynamic-offer-schema'')
          \<and> published a ''dynamic-faq-schema'' =
              (if F \<noteq> [] then Some (FAQPageDoc (faqSchema F))
               else published s ''dynamic-faq-schema'')
          \<and> globalFaqData (updateSchema (Some P) None s) = globalFaqData s
          \<and> globalPricingData (updateSchema None (Some F) s) = globalPricingData s"
  using assms
  by (auto simp: inSync_def Let_def globalPricingData_updateSchema globalFaqData_updateSchema
      published_updateSchema fun_eq_iff)

theorem updateSchema_order_independent_witness:
  "let P = [\<lparr>price = Num (Fin 1000)\<rparr>];
       F = [\<lparr>question = Str ''Pets?'', answer = Str ''Yes''\<rparr>];
       a = updateSchema None (Some F) (updateSchema (Some P) None freshPage);
       b = updateSchema (Some P) None (updateSchema None (Some F) freshPage)
   in inSync freshPage
    \<and> globalPricingData a = P \<and> globalPricingData b = P
    \<and> globalFaqData a = F \<and> globalFaqData b = F
    \<and> published a = published b
    \<and> published a ''dynamic-offer-schema'' = Some (OfferDoc (offerSchema P))
    \<and> published a ''dynamic-faq-schema'' = Some (FAQPageDoc (faqSchema F))"
  using updateSchema_order_independent [OF inSync_freshPage,
      of "[\<lparr>question = Str ''Pets?'', answer = Str ''Yes''\<rparr>]" "[\<lparr>price = Num (Fin 1000)\<rparr>]"]
  by (auto simp: Let_def inSync_freshPage)

text \<open>
  Claim C1 as stated fails for an empty pricing list: after an Offer document was
  published for one price of 1000, \<open>updateSchema([], null)\<close> and
  \<open>updateSchema(null, F)\<close> leave the cache empty and the Offer document of the old
  list in the head, not one computed from the empty list; from a fresh page no Offer
  document is published at all.
\<close>

theorem empty_pricing_list_counterexample:
  "globalPricingData
     (updateSchema None (Some [\<lparr>question = Str ''Pets?'', answer = Str ''Yes''\<rparr>])
        (updateSchema (Some []) None
           (updateSchema (Some [\<lparr>price = Num (Fin 1000)\<rparr>]) None freshPage))) = []
   \<and> published
     (updateSchema None (Some [\<lparr>question = Str ''Pets?'', answer = Str ''Yes''\<rparr>])
        (updateSchema (Some []) None
           (updateSchema (Some [\<lparr>price = Num (Fin 1000)\<rparr>]) None freshPage)))
     ''dynamic-offer-schema'' =
       Some (OfferDoc \<lparr>priceCurrency = ''USD'', lowPrice = Fin 1000, highPrice = Fin 1000,
                       offerCount = 1, availability = ''https://schema.org/InStock''\<rparr>)
   \<and> published
     (updateSchema None (Some [\<lparr>question = Str ''Pets?'', answer = Str ''Yes''\<rparr>])
        (updateSchema (Some []) None
           (updateSchema (Some [\<lparr>price = Num (Fin 1000)\<rparr>]) None freshPage)))
     ''dynamic-offer-schema'' \<noteq> Some (OfferDoc (offerSchema []))
   \<and> published
     (updateSchema None (Some [\<lparr>question = Str ''Pets?'', answer = Str ''Yes''\<rparr>])
        (updateSchema (Some []) None freshPage))
     ''dynamic-offer-schema'' = None"
  by (simp add: globalPricingData_updateSchema published_updateSchema Let_def offerSchema_def
      Math_min_def Math_max_def freshPage_def published_def)

text \<open>
  Claim C2. Whenever a call of \<open>updateSchema\<close> leaves a non-empty cached pricing list
  whose prices are all finite numbers, the Offer document in the head is
  \<open>{priceCurrency: "USD", lowPrice, highPrice, offerCount, availability: InStock}\<close> with
  the minimum, the maximum and the number of these prices, whatever stood in the head
  before: it is the summary computed from the cached list. For the prices 1000, 1500,
  1200 this gives 1000, 1500 and 3.
\<close>

theorem offer_summary:
  assumes "qs \<noteq> []"
    and "globalPricingData (updateSchema newPricingData newFaqData s) = map (\<lambda>q. \<lparr>price = Num (Fin q)\<rparr>) qs"
  shows "published (updateSchema newPricingData newFaqData s) ''dynamic-offer-schema'' =
           Some (OfferDoc \<lparr>priceCurrency = ''USD'',
                           lowPrice = Fin (Min (set qs)),
                           highPrice = Fin (Max (set qs)),
                           offerCount = length qs,
                           availability = ''https://schema.org/InStock''\<rparr>)
       \<and> published (updateSchema newPricingData newFaqData s) ''dynamic-offer-schema'' =
           Some (OfferDoc (offerSchema (globalPricingData (updateSchema newPricingData newFaqData s))))"
proof -
  let ?P = "map (\<lambda>q. \<lparr>price = Num (Fin q)\<rparr>) qs"
  have P: "(case newPricingData of None \<Rightarrow> globalPricingData s | Some p \<Rightarrow> p) = ?P"
    using assms(2) by (simp add: globalPricingData_updateSchema)
  have ne: "?P \<noteq> []" using assms(1) by simp
  have prices: "map price ?P = map (\<lambda>q. Num (Fin q)) qs" by (simp add: comp_def)
  have "offerSchema ?P = \<lparr>priceCurrency = ''USD'', lowPrice = Fin (Min (set qs)),
          highPrice = Fin (Max (set qs)), offerCount = length qs,
          availability = ''https://schema.org/InStock''\<rparr>"
    unfolding offerSchema_def Let_def prices
    by (simp add: Math_min_finite [OF assms(1)] Math_max_finite [OF assms(1)])
  then show ?thesis
    using ne by (simp add: published_updateSchema globalPricingData_updateSchema P Let_def)
qed

theorem offer_summary_witness:
  "published (updateSchema (Some [\<lparr>price = Num (Fin 1000)\<rparr>, \<lparr>price = Num (Fin 1500)\<rparr>, \<lparr>price = Num (Fin 1200)\<rparr>]) None
        \<lparr>pricingContainer = None, faqContainer = None, headScripts = [], globalPricingData = [], globalFaqData = []\<rparr>)
      ''dynamic-offer-schema'' =
           Some (OfferDoc \<lparr>priceCurrency = ''USD'',
                           lowPrice = Fin 1000,
                           highPrice = Fin 1500,
                           offerCount = 3,
                           availability = ''https://schema.org/InStock''\<rparr>)"
  using offer_summary [of "[1000, 1500, 1200]" "Some [\<lparr>price = Num (Fin 1000)\<rparr>, \<lparr>price = Num (Fin 1500)\<rparr>, \<lparr>price = Num (Fin 1200)\<rparr>]" None
        "\<lparr>pricingContainer = None, faqContainer = None, headScripts = [], globalPricingData = [], globalFaqData = []\<rparr>"]
  by (simp add: globalPricingData_updateSchema)

section \<open>Properties of the data renderer\<close>

text \<open>
  Claim C3, at three records: one priced \<open>$1,250\<close>, one priced \<open>TBD\<close> and one with no
  price field. Normalization strips \<open>$\<close> and \<open>,\<close> and parses: \<open>$1,250\<close> gives 1250, and
  the list handed to \<open>updateSchema\<close> holds that price alone, the other two records being
  left out. All three records are rendered, one row each in order, but the price cell of
  a row is made from the raw field, which is not normalised: it shows \<open>Call for pricing\<close>
  only for the record without a price field, and \<open>$NaN\<close> both for the record whose price
  does not parse and for the record priced \<open>$1,250\<close>. Both variants do the same.
\<close>

theorem price_cell_from_raw_field:
  "normalizePrice (Str ''$1,250'') = Num (Fin 1250)
   \<and> normalizePrice (Str ''TBD'') = Num NaN
   \<and> normalizePrice Undefined = Undefined
   \<and> collectPricingData [dollarRecord, tbdRecord, unpricedRecord] = [\<lparr>price = Num (Fin 1250)\<rparr>]
   \<and> globalPricingData (renderPricing (Some [dollarRecord, tbdRecord, unpricedRecord]) freshPage) =
       [\<lparr>price = Num (Fin 1250)\<rparr>]
   \<and> map_option innerHTML (pricingContainer
        (renderPricing (Some [dollarRecord, tbdRecord, unpricedRecord]) freshPage)) =
       Some (PricingTable
         [\<lparr>rowUnitName = Str ''Apartment'', rowPrice = ''$NaN'', rowPromotion = None\<rparr>,
          \<lparr>rowUnitName = Str ''Apartment'', rowPrice = ''$NaN'', rowPromotion = None\<rparr>,
          \<lparr>rowUnitName = Str ''Studio'', rowPrice = ''Call for pricing'', rowPromotion = None\<rparr>])
   \<and> fetchPricing (okResponse [dollarRecord, tbdRecord, unpricedRecord]) freshPage =
       renderPricing (Some [dollarRecord, tbdRecord, unpricedRecord]) freshPage"
proof -
  have n: "normalizePrice (Str ''TBD'') = Num NaN" "normalizePrice Undefined = Undefined"
    by (simp_all add: normalizePrice_def TBD_unparsable)
  have g: "getField (recordFields dollarRecord) ''Current Price'' = Str ''$1,250''"
    "getField (recordFields tbdRecord) ''Current Price'' = Str ''TBD''"
    "getField (recordFields unpricedRecord) ''Current Price'' = Undefined"
    by (simp_all add: dollarRecord_def tbdRecord_def unpricedRecord_def getField_def)
  have c: "collectPricingData [dollarRecord, tbdRecord, unpricedRecord] = [\<lparr>price = Num (Fin 1250)\<rparr>]"
    by (simp add: collectPricingData_Cons g n example_normalize isNaN_def)
  have r: "map pricingRow [dollarRecord, tbdRecord, unpricedRecord] =
         [\<lparr>rowUnitName = Str ''Apartment'', rowPrice = ''$NaN'', rowPromotion = None\<rparr>,
          \<lparr>rowUnitName = Str ''Apartment'', rowPrice = ''$NaN'', rowPromotion = None\<rparr>,
          \<lparr>rowUnitName = Str ''Studio'', rowPrice = ''Call for pricing'', rowPromotion = None\<rparr>]"
    by (simp add: pricingRow_def Let_def g js_or_def dollar_formatted TBD_formatted
        dollarRecord_def tbdRecord_def unpricedRecord_def getField_def)
  have p: "globalPricingData (renderPricing (Some [dollarRecord, tbdRecord, unpricedRecord]) freshPage) =
             [\<lparr>price = Num (Fin 1250)\<rparr>]
         \<and> map_option innerHTML (pricingContainer
              (renderPricing (Some [dollarRecord, tbdRecord, unpricedRecord]) freshPage)) =
             Some (PricingTable (map pricingRow [dollarRecord, tbdRecord, unpricedRecord]))"
    by (simp add: renderPricing_def freshPage_def Let_def globalPricingData_updateSchema c
        del: list.map)
  have f: "fetchPricing (okResponse [dollarRecord, tbdRecord, unpricedRecord]) freshPage =
       renderPricing (Some [dollarRecord, tbdRecord, unpricedRecord]) freshPage"
    by (simp add: fetchPricing_def renderPricing_def okResponse_def freshPage_def Let_def
        showLoading_def classList_remove_def del: list.map)
  from example_normalize n c p f show ?thesis unfolding r by simp
qed

text \<open>
  Claim C8. A successful fetch with zero records puts the fixed "no data" paragraph
  into the container of that kind (when the page has it) and changes nothing else: the
  caches and the script elements of the head, so every document published before, stay
  as they were. This holds for \<open>fetchPricing\<close> and \<open>fetchFAQ\<close> of the direct-access
  variant and for \<open>renderPricing\<close> and \<open>renderFAQ\<close> of the proxied one, which treat a
  missing list like an empty one.
\<close>

theorem zero_records_render:
  "fetchPricing (Resolved \<lparr>ok = True, json = Inr \<lparr>payloadRecords = Some []\<rparr>\<rparr>) s =
     s\<lparr>pricingContainer :=
         map_option (\<lambda>c. c\<lparr>innerHTML := NoData ''No availability at this time.''\<rparr>)
           (pricingContainer s)\<rparr>
   \<and> fetchFAQ (Resolved \<lparr>ok = True, json = Inr \<lparr>payloadRecords = Some []\<rparr>\<rparr>) s =
     s\<lparr>faqContainer :=
         map_option (\<lambda>c. c\<lparr>innerHTML := NoData ''No FAQs available.''\<rparr>) (faqContainer s)\<rparr>
   \<and> renderPricing (Some []) s =
     s\<lparr>pricingContainer :=
         map_option (\<lambda>c. c\<lparr>innerHTML := NoData ''No availability at this time.''\<rparr>)
           (pricingContainer s)\<rparr>
   \<and> renderFAQ (Some []) s =
     s\<lparr>faqContainer :=
         map_option (\<lambda>c. c\<lparr>innerHTML := NoData ''No FAQs available.''\<rparr>) (faqContainer s)\<rparr>
   \<and> headScripts (fetchPricing (Resolved \<lparr>ok = True, json = Inr \<lparr>payloadRecords = Some []\<rparr>\<rparr>) s)
       = headScripts s
   \<and> headScripts (fetchFAQ (Resolved \<lparr>ok = True, json = Inr \<lparr>payloadRecords = Some []\<rparr>\<rparr>) s)
       = headScripts s
   \<and> headScripts (renderPricing (Some []) s) = headScripts s
   \<and> headScripts (renderFAQ (Some []) s) = headScripts s
   \<and> renderPricing None s = renderPricing (Some []) s
   \<and> renderFAQ None s = renderFAQ (Some []) s"
  by (cases "pricingContainer s"; cases "faqContainer s")
     (simp_all add: fetchPricing_def fetchFAQ_def renderPricing_def renderFAQ_def showLoading_def Let_def)

text \<open>
  Claim C10. When a successful pricing fetch brings at least one record and the price
  of every record is absent or does not parse, the list handed to \<open>updateSchema\<close> is
  empty, the cached pricing list becomes empty, and the Offer document found in the head
  is the one that was there before the fetch.
\<close>

theorem stale_offer_after_unusable_prices:
  assumes "pricingContainer s \<noteq> None" and "records \<noteq> []"
    and "\<forall>r \<in> set records. absentOrUnparsable (getField (recordFields r) ''Current Price'')"
  shows "collectPricingData records = []
       \<and> globalPricingData (renderPricing (Some records) s) = []
       \<and> published (renderPricing (Some records) s) ''dynamic-offer-schema'' =
           published s ''dynamic-offer-schema''
       \<and> globalPricingData (fetchPricing (okResponse records) s) = []
       \<and> published (fetchPricing (okResponse records) s) ''dynamic-offer-schema'' =
           published s ''dynamic-offer-schema''"
proof -
  have e: "collectPricingData records = []"
    by (rule collectPricingData_all_unusable [OF assms(3)])
  obtain c where c: "pricingContainer s = Some c" using assms(1) by auto
  show ?thesis
    using assms(2)
    by (simp add: renderPricing_def fetchPricing_def okResponse_def c e Let_def
        globalPricingData_updateSchema published_updateSchema)
qed

theorem stale_offer_after_unusable_prices_witness:
  "globalPricingData (renderPricing (Some [unpricedRecord, tbdRecord])
       (renderPricing (Some [dollarRecord]) freshPage)) = []
   \<and> published (renderPricing (Some [unpricedRecord, tbdRecord])
       (renderPricing (Some [dollarRecord]) freshPage)) ''dynamic-offer-schema'' =
       Some (OfferDoc \<lparr>priceCurrency = ''USD'', lowPrice = Fin 1250, highPrice = Fin 1250,
                       offerCount = 1, availability = ''https://schema.org/InStock''\<rparr>)"
proof -
  have c: "pricingContainer (renderPricing (Some [dollarRecord]) freshPage) \<noteq> None"
    by (simp add: renderPricing_def freshPage_def Let_def)
  have u: "\<forall>r \<in> set [unpricedRecord, tbdRecord].
             absentOrUnparsable (getField (recordFields r) ''Current Price'')"
    by (simp add: unpricedRecord_def tbdRecord_def getField_def absentOrUnparsable_def TBD_unparsable)
  from stale_offer_after_unusable_prices [OF c _ u] show ?thesis
    by (simp add: priced_page)
qed

text \<open>
  Claim C5, as the code has it. In the direct-access variant a failed fetch of one kind
  only puts the error message into the container of that kind: the fetch-and-render of
  the other kind gives the same page as without it, up to that container, in either
  order of completion. However the fetch of one kind settles, the container and the
  cached list of the other kind come out as they would without it; what the two kinds
  share is the head, written by \<open>updateSchema\<close>. In the proxied variant the two kinds fail
  together: when either upstream request fails, \<open>fetchData\<close> gets the gateway's 500
  response and shows the error message in both containers.
\<close>

theorem fetch_failure_isolation:
  assumes "fetchFailed failed"
    and "key = Some k" and "k \<noteq> []"
    and "fetchFailed (pricingSettles u) \<or> fetchFailed (faqSettles u)"
    and "pricingContainer t = Some p" and "faqContainer t = Some f"
  shows "fetchFAQ r (fetchPricing failed s) =
           (fetchFAQ r s)\<lparr>pricingContainer :=
              map_option (\<lambda>c. c\<lparr>innerHTML := ErrorMessage ''Unable to load current rates.''\<rparr>)
                (pricingContainer s)\<rparr>
       \<and> fetchPricing failed (fetchFAQ r s) = fetchFAQ r (fetchPricing failed s)
       \<and> fetchPricing r (fetchFAQ failed s) =
           (fetchPricing r s)\<lparr>faqContainer :=
              map_option (\<lambda>c. c\<lparr>innerHTML := ErrorMessage ''Unable to load current rates.''\<rparr>)
                (faqContainer s)\<rparr>
       \<and> fetchFAQ failed (fetchPricing r s) = fetchPricing r (fetchFAQ failed s)
       \<and> faqContainer (fetchFAQ r (fetchPricing r' s)) = faqContainer (fetchFAQ r s)
       \<and> globalFaqData (fetchFAQ r (fetchPricing r' s)) = globalFaqData (fetchFAQ r s)
       \<and> pricingContainer (fetchPricing r (fetchFAQ r' s)) = pricingContainer (fetchPricing r s)
       \<and> globalPricingData (fetchPricing r (fetchFAQ r' s)) = globalPricingData (fetchPricing r s)
       \<and> loadViaGateway key u t =
           t\<lparr>pricingContainer := Some (p\<lparr>innerHTML := ErrorMessage ''Unable to load current rates.''\<rparr>),
             faqContainer := Some (f\<lparr>innerHTML := ErrorMessage ''Unable to load current rates.''\<rparr>)\<rparr>"
  using loadViaGateway_failure [OF assms(2-6)]
    fetchFAQ_own_state [of "fetchPricing r' s" s r]
    fetchPricing_own_state [of "fetchFAQ r' s" s r]
  by (simp add: fetchPricing_failed [OF assms(1)] fetchFAQ_failed [OF assms(1)]
      fetchFAQ_pricingContainer_update fetchPricing_faqContainer_update)

theorem fetch_failure_isolation_witness:
  "fetchFAQ (okResponse [faqRecord]) (fetchPricing (Rejected ''network'') freshPage) =
     (fetchFAQ (okResponse [faqRecord]) freshPage)\<lparr>pricingContainer :=
        Some \<lparr>innerHTML = ErrorMessage ''Unable to load current rates.'',
              classList = [''h-64'', ''flex'', ''items-center'', ''justify-center'']\<rparr>\<rparr>
   \<and> fetchPricing (Rejected ''network'') (fetchFAQ (okResponse [faqRecord]) freshPage) =
       fetchFAQ (okResponse [faqRecord]) (fetchPricing (Rejected ''network'') freshPage)
   \<and> map_option innerHTML (faqContainer (loadViaGateway (Some ''key'') pricingDown freshPage)) =
       Some (ErrorMessage ''Unable to load current rates.'')
   \<and> map_option innerHTML (pricingContainer (loadViaGateway (Some ''key'') pricingDown freshPage)) =
       Some (ErrorMessage ''Unable to load current rates.'')"
  using fetch_failure_isolation [of "Rejected ''network''" "Some ''key''" "''key''" pricingDown freshPage
      "\<lparr>innerHTML = Static [], classList = [''h-64'', ''flex'', ''items-center'', ''justify-center'']\<rparr>"
      "\<lparr>innerHTML = Static [], classList = [''min-h-[200px]'', ''flex'', ''items-center'', ''justify-center'']\<rparr>"
      "okResponse [faqRecord]" freshPage]
  by (simp add: fetchFailed_def pricingDown_def freshPage_def)

text \<open>
  Claim C5 as stated fails in the proxied variant: with the pricing request rejected
  and the FAQ request successful, the FAQ container shows the error message and no FAQ
  data is cached, while with an empty but successful pricing answer the same FAQ answer
  is rendered as the accordion.
\<close>

theorem gateway_couples_failures_counterexample:
  "map_option innerHTML (faqContainer (loadViaGateway (Some ''key'') pricingDown freshPage)) =
     Some (ErrorMessage ''Unable to load current rates.'')
   \<and> map_option innerHTML (faqContainer (loadViaGateway (Some ''key'') pricingEmpty freshPage)) =
     Some (Accordion (accordionPanels [faqRecord]))
   \<and> globalFaqData (loadViaGateway (Some ''key'') pricingDown freshPage) = []
   \<and> globalFaqData (loadViaGateway (Some ''key'') pricingEmpty freshPage) =
       [\<lparr>question = Str ''Pets?'', answer = Str ''Yes''\<rparr>]"
  by (simp add: loadViaGateway_def handler_def promiseAll_def pricingDown_def pricingEmpty_def
      okResponse_def asRatesResponse_def fetchData_def freshPage_def Let_def showError_def
      showLoading_def orEmpty_def renderPricing_def renderFAQ_def globalFaqData_updateSchema
      collectFaqData_def faqRecord_def getField_def js_or_def)

text \<open>
  Claim C9, as the code has it. Take a panel of the accordion whose content is hidden
  exactly when its icon is not rotated, as rendering leaves every panel, and an identifier
  under which the document lookup finds the content element of that panel and, with the
  prefix \<open>icon-\<close>, its icon. Two toggles in succession return, and leave the content
  element and the icon with the same class tokens as before (the sets are equal; a token
  that was removed and added again stands at the end of its list), so the content is
  again hidden exactly when the icon is not rotated. No other panel, no other element of
  the document, neither cache, no script element of the head, not the pricing container
  and not the class list of the FAQ container changes.
\<close>

theorem double_toggle:
  assumes "k < length (panelsOf (appPage d))"
    and "getElementById i = Some (ContentNode k)"
    and "getElementById (''icon-'' @ i) = Some (IconNode k)"
    and "(''hidden'' \<in> set (contentClasses (panelsOf (appPage d) ! k))) =
         (''rotate-180'' \<notin> set (iconClasses (panelsOf (appPage d) ! k)))"
  shows "\<exists>d'. toggleTwice getElementById i d = Returned d'
       \<and> panelsOf (appPage d') = (panelsOf (appPage d))[k := (panelsOf (appPage d) ! k)
              \<lparr>contentClasses := reappended ''hidden'' (contentClasses (panelsOf (appPage d) ! k)),
               iconClasses := reappended ''rotate-180'' (iconClasses (panelsOf (appPage d) ! k))\<rparr>]
       \<and> set (contentClasses (panelsOf (appPage d') ! k)) = set (contentClasses (panelsOf (appPage d) ! k))
       \<and> set (iconClasses (panelsOf (appPage d') ! k)) = set (iconClasses (panelsOf (appPage d) ! k))
       \<and> (''hidden'' \<in> set (contentClasses (panelsOf (appPage d') ! k))) =
         (''rotate-180'' \<notin> set (iconClasses (panelsOf (appPage d') ! k)))
       \<and> otherClassLists d' = otherClassLists d
       \<and> globalPricingData (appPage d') = globalPricingData (appPage d)
       \<and> globalFaqData (appPage d') = globalFaqData (appPage d)
       \<and> headScripts (appPage d') = headScripts (appPage d)
       \<and> pricingContainer (appPage d') = pricingContainer (appPage d)
       \<and> map_option classList (faqContainer (appPage d')) = map_option classList (faqContainer (appPage d))"
proof -
  have c: "faqContainer (appPage d) \<noteq> None" by (rule panelsOf_nonempty [OF assms(1)])
  show ?thesis
    using assms(1,4)
    by (simp add: toggle_twice [OF assms] panelsOf_setPanels [OF c])
qed

theorem double_toggle_witness:
  "(0::nat) < length (panelsOf (renderFAQ (Some [faqRecord]) freshPage))
   \<and> panelLookup (renderFAQ (Some [faqRecord]) freshPage) ''faq-0'' = Some (ContentNode 0)
   \<and> panelLookup (renderFAQ (Some [faqRecord]) freshPage) ''icon-faq-0'' = Some (IconNode 0)
   \<and> (\<exists>d'. toggleTwice (panelLookup (renderFAQ (Some [faqRecord]) freshPage)) ''faq-0''
              \<lparr>appPage = renderFAQ (Some [faqRecord]) freshPage, otherClassLists = (\<lambda>e. [])\<rparr> = Returned d'
         \<and> set (contentClasses (panelsOf (appPage d') ! 0)) =
             set (contentClasses (panelsOf (renderFAQ (Some [faqRecord]) freshPage) ! 0))
         \<and> set (iconClasses (panelsOf (appPage d') ! 0)) =
             set (iconClasses (panelsOf (renderFAQ (Some [faqRecord]) freshPage) ! 0))
         \<and> otherClassLists d' = (\<lambda>e. [])
         \<and> globalFaqData (appPage d') = [\<lparr>question = Str ''Pets?'', answer = Str ''Yes''\<rparr>]
         \<and> headScripts (appPage d') = headScripts (renderFAQ (Some [faqRecord]) freshPage))"
proof -
  let ?s = "renderFAQ (Some [faqRecord]) freshPage"
  let ?d = "\<lparr>appPage = ?s, otherClassLists = (\<lambda>e. [])\<rparr>"
  have f: "faqContainer freshPage \<noteq> None" by (simp add: freshPage_def)
  have w: "accordionWellFormed ?s"
    by (rule accordionWellFormed_rendered [OF f]) simp
  have l: "(0::nat) < length (panelsOf ?s)"
    by (simp add: panelsOf_renderFAQ(1) [OF f])
  have l': "(0::nat) < length (panelsOf (appPage ?d))" using l by simp
  have i: "''faq-'' @ digitsOf 0 = ''faq-0''" by (simp add: digitsOf.simps)
  have lc: "panelLookup ?s ''faq-0'' = Some (ContentNode 0)"
    using wellFormed_lookup(1) [OF w l] unfolding i .
  have li: "panelLookup ?s (''icon-'' @ ''faq-0'') = Some (IconNode 0)"
    using wellFormed_lookup(2) [OF w l] unfolding i .
  have li': "panelLookup ?s ''icon-faq-0'' = Some (IconNode 0)" using li by simp
  have h: "(''hidden'' \<in> set (contentClasses (panelsOf (appPage ?d) ! 0))) =
           (''rotate-180'' \<notin> set (iconClasses (panelsOf (appPage ?d) ! 0)))"
    using w l by (simp add: accordionWellFormed_def list_all_length)
  have g: "globalFaqData ?s = [\<lparr>question = Str ''Pets?'', answer = Str ''Yes''\<rparr>]"
    by (simp add: renderFAQ_def freshPage_def Let_def globalFaqData_updateSchema collectFaqData_def
        faqRecord_def getField_def js_or_def)
  from double_toggle [OF l' lc li h] obtain d' where
    "toggleTwice (panelLookup ?s) ''faq-0'' ?d = Returned d'"
    "set (contentClasses (panelsOf (appPage d') ! 0)) = set (contentClasses (panelsOf ?s ! 0))"
    "set (iconClasses (panelsOf (appPage d') ! 0)) = set (iconClasses (panelsOf ?s ! 0))"
    "otherClassLists d' = (\<lambda>e. [])"
    "globalFaqData (appPage d') = globalFaqData ?s"
    "headScripts (appPage d') = headScripts ?s"
    by auto
  with l lc li' g show ?thesis by auto
qed

text \<open>
  Claim C9 as stated fails for the class list as a list: on a freshly rendered panel
  \<open>hidden\<close> is the first class of the content element, and after two toggles it is the
  last.
\<close>

theorem double_toggle_order_counterexample:
  "panelsOf (renderFAQ (Some [faqRecord]) freshPage) =
     [\<lparr>panelId = ''faq-0'', panelQuestion = Str ''Pets?'', panelAnswer = Str ''Yes'',
       iconClasses = [''w-5'', ''h-5'', ''text-primary'', ''transform'',
                      ''transition-transform'', ''duration-200''],
       contentClasses = [''hidden'', ''bg-gray-50'', ''p-4'', ''border-t'', ''border-gray-100'',
                         ''text-secondary'', ''leading-relaxed'', ''prose'', ''max-w-none'']\<rparr>]
   \<and> toggleTwice (panelLookup (renderFAQ (Some [faqRecord]) freshPage)) ''faq-0''
        \<lparr>appPage = renderFAQ (Some [faqRecord]) freshPage, otherClassLists = (\<lambda>e. [])\<rparr> =
     Returned
        \<lparr>appPage = setPanels
           [\<lparr>panelId = ''faq-0'', panelQuestion = Str ''Pets?'', panelAnswer = Str ''Yes'',
             iconClasses = [''w-5'', ''h-5'', ''text-primary'', ''transform'',
                            ''transition-transform'', ''duration-200''],
             contentClasses = [''bg-gray-50'', ''p-4'', ''border-t'', ''border-gray-100'',
                               ''text-secondary'', ''leading-relaxed'', ''prose'', ''max-w-none'',
                               ''hidden'']\<rparr>]
           (renderFAQ (Some [faqRecord]) freshPage),
         otherClassLists = (\<lambda>e. [])\<rparr>
   \<and> panelsOf (setPanels
           [\<lparr>panelId = ''faq-0'', panelQuestion = Str ''Pets?'', panelAnswer = Str ''Yes'',
             iconClasses = [''w-5'', ''h-5'', ''text-primary'', ''transform'',
                            ''transition-transform'', ''duration-200''],
             contentClasses = [''bg-gray-50'', ''p-4'', ''border-t'', ''border-gray-100'',
                               ''text-secondary'', ''leading-relaxed'', ''prose'', ''max-w-none'',
                               ''hidden'']\<rparr>]
           (renderFAQ (Some [faqRecord]) freshPage)) =
     [\<lparr>panelId = ''faq-0'', panelQuestion = Str ''Pets?'', panelAnswer = Str ''Yes'',
       iconClasses = [''w-5'', ''h-5'', ''text-primary'', ''transform'',
                      ''transition-transform'', ''duration-200''],
       contentClasses = [''bg-gray-50'', ''p-4'', ''border-t'', ''border-gray-100'',
                         ''text-secondary'', ''leading-relaxed'', ''prose'', ''max-w-none'',
                         ''hidden'']\<rparr>]"
proof -
  let ?s = "renderFAQ (Some [faqRecord]) freshPage"
  let ?d = "\<lparr>appPage = ?s, otherClassLists = (\<lambda>e. [])\<rparr>"
  have f: "faqContainer freshPage \<noteq> None" by (simp add: freshPage_def)
  have w: "accordionWellFormed ?s"
    by (rule accordionWellFormed_rendered [OF f]) simp
  have p: "panelsOf ?s = accordionPanels [faqRecord]"
    by (rule panelsOf_renderFAQ(1) [OF f]) simp
  have ps: "panelsOf ?s =
     [\<lparr>panelId = ''faq-0'', panelQuestion = Str ''Pets?'', panelAnswer = Str ''Yes'',
       iconClasses = [''w-5'', ''h-5'', ''text-primary'', ''transform'',
                      ''transition-transform'', ''duration-200''],
       contentClasses = [''hidden'', ''bg-gray-50'', ''p-4'', ''border-t'', ''border-gray-100'',
                         ''text-secondary'', ''leading-relaxed'', ''prose'', ''max-w-none'']\<rparr>]"
    unfolding p
    by (simp add: accordionPanels_def faqPanel_def Let_def faqRecord_def getField_def js_or_def
        digitsOf.simps)
  have l: "(0::nat) < length (panelsOf ?s)" by (simp add: p)
  have l': "(0::nat) < length (panelsOf (appPage ?d))" using l by simp
  have i: "''faq-'' @ digitsOf 0 = ''faq-0''" by (simp add: digitsOf.simps)
  have lc: "panelLookup ?s ''faq-0'' = Some (ContentNode 0)"
    using wellFormed_lookup(1) [OF w l] unfolding i .
  have li: "panelLookup ?s (''icon-'' @ ''faq-0'') = Some (IconNode 0)"
    using wellFormed_lookup(2) [OF w l] unfolding i .
  have h: "(''hidden'' \<in> set (contentClasses (panelsOf (appPage ?d) ! 0))) =
           (''rotate-180'' \<notin> set (iconClasses (panelsOf (appPage ?d) ! 0)))"
    by (simp add: ps)
  have c: "faqContainer ?s \<noteq> None" using f by (simp add: faqContainer_renderFAQ)
  have t: "toggleTwice (panelLookup ?s) ''faq-0'' ?d =
     Returned
        \<lparr>appPage = setPanels
           [\<lparr>panelId = ''faq-0'', panelQuestion = Str ''Pets?'', panelAnswer = Str ''Yes'',
             iconClasses = [''w-5'', ''h-5'', ''text-primary'', ''transform'',
                            ''transition-transform'', ''duration-200''],
             contentClasses = [''bg-gray-50'', ''p-4'', ''border-t'', ''border-gray-100'',
                               ''text-secondary'', ''leading-relaxed'', ''prose'', ''max-w-none'',
                               ''hidden'']\<rparr>] ?s,
         otherClassLists = (\<lambda>e. [])\<rparr>"
    by (simp add: toggle_twice [OF l' lc li h] ps reappended_def)
  from ps t show ?thesis by (simp add: panelsOf_setPanels [OF c])
qed

section \<open>Properties of the proxy gateway\<close>

text \<open>
  Claim C4. A GET request, with the credential configured, for which at least one of
  the two upstream requests fails is answered with status 500 and the body
  \<open>{error: "Failed to fetch data", message: m}\<close>, where \<open>m\<close> is the message of the error
  that was thrown: the reason of the rejection (of the first one when both reject), or
  the message of the status check when neither rejected. The body is never the
  combined \<open>{pricing, faq}\<close> object, so the records of the other collection are not sent.
\<close>

theorem gateway_upstream_failure:
  assumes "requestMethod request = ''GET''" and "key = Some k" and "k \<noteq> []"
    and "fetchFailed (pricingSettles u) \<or> fetchFailed (faqSettles u)"
  shows "fst (handler request key u) =
           \<lparr>statusCode = 500, responseHeaders = corsHeaders,
            responseBody =
              ErrorBody ''Failed to fetch data''
                (Some (case (pricingSettles u, faqSettles u) of
                         (Rejected e1, Rejected e2) \<Rightarrow> if faqSettlesFirst u then e2 else e1
                       | (Rejected e1, Resolved r2) \<Rightarrow> e1
                       | (Resolved r1, Rejected e2) \<Rightarrow> e2
                       | (Resolved r1, Resolved r2) \<Rightarrow> ''Failed to fetch data from Airtable''))\<rparr>"
  by (rule handler_upstream_failure [OF assms])

theorem gateway_upstream_failure_witness:
  "fst (handler \<lparr>requestMethod = ''GET''\<rparr> (Some ''key'')
          \<lparr>pricingSettles = Rejected ''connect ECONNREFUSED'',
           faqSettles = Resolved \<lparr>ok = True,
             json = Inr \<lparr>payloadRecords = Some [\<lparr>recordId = ''rec1'', recordFields = []\<rparr>]\<rparr>\<rparr>,
           faqSettlesFirst = True\<rparr>) =
     \<lparr>statusCode = 500, responseHeaders = corsHeaders,
      responseBody = ErrorBody ''Failed to fetch data'' (Some ''connect ECONNREFUSED'')\<rparr>"
  using gateway_upstream_failure [of "\<lparr>requestMethod = ''GET''\<rparr>" "Some ''key''" "''key''"
      "\<lparr>pricingSettles = Rejected ''connect ECONNREFUSED'',
        faqSettles = Resolved \<lparr>ok = True,
          json = Inr \<lparr>payloadRecords = Some [\<lparr>recordId = ''rec1'', recordFields = []\<rparr>]\<rparr>\<rparr>,
        faqSettlesFirst = True\<rparr>"]
  by (simp add: fetchFailed_def)

text \<open>
  Claim C6. A GET request that arrives while \<open>AIRTABLE_API_KEY\<close> is not set (or is the
  empty string, which \<open>!\<close> treats alike) is answered with status 500 and the body
  \<open>{error: "Server configuration error", message: "Airtable API key not configured"}\<close>,
  and no upstream request is issued.
\<close>

theorem gateway_missing_credential:
  assumes "requestMethod request = ''GET''" and "key = None \<or> key = Some []"
  shows "handler request key u =
           (\<lparr>statusCode = 500, responseHeaders = corsHeaders,
             responseBody = ErrorBody ''Server configuration error''
                              (Some ''Airtable API key not configured'')\<rparr>, [])"
  using assms by (auto simp: handler_def)

theorem gateway_missing_credential_witness:
  "handler \<lparr>requestMethod = ''GET''\<rparr> None
     \<lparr>pricingSettles = Resolved \<lparr>ok = True, json = Inr \<lparr>payloadRecords = Some []\<rparr>\<rparr>,
      faqSettles = Rejected ''network'', faqSettlesFirst = False\<rparr> =
   (\<lparr>statusCode = 500, responseHeaders = corsHeaders,
     responseBody = ErrorBody ''Server configuration error''
                      (Some ''Airtable API key not configured'')\<rparr>, [])"
  using gateway_missing_credential [of "\<lparr>requestMethod = ''GET''\<rparr>" None] by simp

text \<open>
  Claim C7. A GET request, with the credential configured, for which both upstream
  requests resolve with a success status and a JSON object is answered with status 200
  and the body \<open>{pricing, faq}\<close>, each list being the \<open>records\<close> member of the
  corresponding payload, or the empty list when the payload has none.
\<close>

theorem gateway_success:
  assumes "requestMethod request = ''GET''" and "key = Some k" and "k \<noteq> []"
    and "pricingSettles u = Resolved pricingResponse" and "faqSettles u = Resolved faqResponse"
    and "ok pricingResponse" and "ok faqResponse"
    and "json pricingResponse = Inr pricingData" and "json faqResponse = Inr faqData"
  shows "fst (handler request key u) =
           \<lparr>statusCode = 200, responseHeaders = corsHeaders,
            responseBody =
              RatesBody (case payloadRecords pricingData of None \<Rightarrow> [] | Some rs \<Rightarrow> rs)
                        (case payloadRecords faqData of None \<Rightarrow> [] | Some rs \<Rightarrow> rs)\<rparr>"
  using assms by (simp add: handler_def promiseAll_def orEmpty_def)

theorem gateway_success_witness:
  "fst (handler \<lparr>requestMethod = ''GET''\<rparr> (Some ''key'')
          \<lparr>pricingSettles = Resolved \<lparr>ok = True, json = Inr \<lparr>payloadRecords =
             Some [\<lparr>recordId = ''rec1'', recordFields = [(''Current Price'', Num (Fin 1000))]\<rparr>]\<rparr>\<rparr>,
           faqSettles = Resolved \<lparr>ok = True, json = Inr \<lparr>payloadRecords = None\<rparr>\<rparr>,
           faqSettlesFirst = False\<rparr>) =
     \<lparr>statusCode = 200, responseHeaders = corsHeaders,
      responseBody =
        RatesBody [\<lparr>recordId = ''rec1'', recordFields = [(''Current Price'', Num (Fin 1000))]\<rparr>] []\<rparr>"
  using gateway_success [of "\<lparr>requestMethod = ''GET''\<rparr>" "Some ''key''" "''key''"
      "\<lparr>pricingSettles = Resolved \<lparr>ok = True, json = Inr \<lparr>payloadRecords =
          Some [\<lparr>recordId = ''rec1'', recordFields = [(''Current Price'', Num (Fin 1000))]\<rparr>]\<rparr>\<rparr>,
        faqSettles = Resolved \<lparr>ok = True, json = Inr \<lparr>payloadRecords = None\<rparr>\<rparr>,
        faqSettlesFirst = False\<rparr>"
      "\<lparr>ok = True, json = Inr \<lparr>payloadRecords =
          Some [\<lparr>recordId = ''rec1'', recordFields = [(''Current Price'', Num (Fin 1000))]\<rparr>]\<rparr>\<rparr>"
      "\<lparr>ok = True, json = Inr \<lparr>payloadRecords = None\<rparr>\<rparr>"
      "\<lparr>payloadRecords =
          Some [\<lparr>recordId = ''rec1'', recordFields = [(''Current Price'', Num (Fin 1000))]\<rparr>]\<rparr>"
      "\<lparr>payloadRecords = None\<rparr>"]
  by simp

end
